theory Spec2Isabelle
  imports Complex_Main
begin

section \<open>The sculpting viewer: data model\<close>

text \<open>
  The development follows \<^verbatim>\<open>src/components/SimpleViewer.tsx\<close>: the component
  \<^verbatim>\<open>EditableScene\<close> with its functions \<^verbatim>\<open>processLoadedModel\<close>,
  \<^verbatim>\<open>handlePointerDown\<close>, \<^verbatim>\<open>handlePointerMove\<close>, \<^verbatim>\<open>handlePointerUp\<close>,
  \<^verbatim>\<open>sculptMesh\<close> and \<^verbatim>\<open>resetMesh\<close>. The second viewer of the repository
  (\<^verbatim>\<open>SculptableModel\<close>) has the same loop in its \<^verbatim>\<open>sculptMesh\<close>.

  JavaScript numbers are modelled by the real numbers: the rounding of IEEE arithmetic
  (and of the 32-bit position array) is not part of the model. Where the code can produce
  an infinite or NaN value from finite ones, the model says so with an \<open>option\<close>: the
  local contact point (\<open>applyMatrix4\<close>) and the vertex normals (\<open>computeVertexNormals\<close>).
  The vector and matrix operations are those of the three.js classes the component calls
  (\<^verbatim>\<open>Vector2\<close>, \<^verbatim>\<open>Vector3\<close>, \<^verbatim>\<open>Matrix4\<close>, \<^verbatim>\<open>BufferGeometry\<close>), written out from the
  library.
\<close>

datatype Tool = MOVE | SCULPT | SMOOTH | PINCH

datatype Vector2 = Vector2 (x2: real) (y2: real)

datatype Vector3 = Vector3 (vx: real) (vy: real) (vz: real)

text \<open>\<^verbatim>\<open>Matrix4.elements\<close>, column-major: \<open>e12\<close>, \<open>e13\<close>, \<open>e14\<close> hold the translation.\<close>

datatype Matrix4 = Matrix4
  (e0: real) (e1: real) (e2: real) (e3: real)
  (e4: real) (e5: real) (e6: real) (e7: real)
  (e8: real) (e9: real) (e10: real) (e11: real)
  (e12: real) (e13: real) (e14: real) (e15: real)

subsection \<open>three.js vector operations\<close>

definition sub :: "Vector3 \<Rightarrow> Vector3 \<Rightarrow> Vector3" where
  "sub a b = Vector3 (vx a - vx b) (vy a - vy b) (vz a - vz b)"

definition add :: "Vector3 \<Rightarrow> Vector3 \<Rightarrow> Vector3" where
  "add a b = Vector3 (vx a + vx b) (vy a + vy b) (vz a + vz b)"

definition cross :: "Vector3 \<Rightarrow> Vector3 \<Rightarrow> Vector3" where
  "cross a b = Vector3 (vy a * vz b - vz a * vy b)
                       (vz a * vx b - vx a * vz b)
                       (vx a * vy b - vy a * vx b)"

definition dot :: "Vector3 \<Rightarrow> Vector3 \<Rightarrow> real" where
  "dot a b = vx a * vx b + vy a * vy b + vz a * vz b"

definition multiplyScalar :: "Vector3 \<Rightarrow> real \<Rightarrow> Vector3" where
  "multiplyScalar v s = Vector3 (vx v * s) (vy v * s) (vz v * s)"

definition addScaledVector :: "Vector3 \<Rightarrow> Vector3 \<Rightarrow> real \<Rightarrow> Vector3" where
  "addScaledVector this v s = Vector3 (vx this + vx v * s) (vy this + vy v * s) (vz this + vz v * s)"

definition lerp :: "Vector3 \<Rightarrow> Vector3 \<Rightarrow> real \<Rightarrow> Vector3" where
  "lerp this v alpha = Vector3 (vx this + (vx v - vx this) * alpha)
                               (vy this + (vy v - vy this) * alpha)
                               (vz this + (vz v - vz this) * alpha)"

definition distanceToSquared :: "Vector3 \<Rightarrow> Vector3 \<Rightarrow> real" where
  "distanceToSquared this v =
     (let dx = vx this - vx v; dy = vy this - vy v; dz = vz this - vz v
      in dx * dx + dy * dy + dz * dz)"

definition distanceTo :: "Vector3 \<Rightarrow> Vector3 \<Rightarrow> real" where
  "distanceTo this v = sqrt (distanceToSquared this v)"

definition length3 :: "Vector3 \<Rightarrow> real" where
  "length3 v = sqrt (vx v * vx v + vy v * vy v + vz v * vz v)"

text \<open>\<^verbatim>\<open>normalize()\<close> is \<^verbatim>\<open>divideScalar(this.length() || 1)\<close>: a zero vector stays zero.\<close>

definition divideScalar :: "Vector3 \<Rightarrow> real \<Rightarrow> Vector3" where
  "divideScalar v s = multiplyScalar v (1 / s)"

definition normalize :: "Vector3 \<Rightarrow> Vector3" where
  "normalize v = divideScalar v (if length3 v = 0 then 1 else length3 v)"

text \<open>
  \<^verbatim>\<open>applyMatrix4\<close> treats the vector as a point (translation and perspective divide).
  When the divisor is zero, as it is for the zero matrix that \<^verbatim>\<open>invert\<close> returns for a
  singular matrix, every coordinate of the JavaScript result is infinite or NaN: the
  result is \<open>None\<close> then.
\<close>

definition applyMatrix4 :: "Vector3 \<Rightarrow> Matrix4 \<Rightarrow> Vector3 option" where
  "applyMatrix4 v m =
     (let x = vx v; y = vy v; z = vz v;
          d = e3 m * x + e7 m * y + e11 m * z + e15 m
      in if d = 0 then None
         else let w = 1 / d
              in Some (Vector3 ((e0 m * x + e4 m * y + e8 m * z + e12 m) * w)
                               ((e1 m * x + e5 m * y + e9 m * z + e13 m) * w)
                               ((e2 m * x + e6 m * y + e10 m * z + e14 m) * w)))"

text \<open>\<^verbatim>\<open>transformDirection\<close> uses the upper 3x3 block only and normalizes.\<close>

definition transformDirection :: "Vector3 \<Rightarrow> Matrix4 \<Rightarrow> Vector3" where
  "transformDirection v m =
     (let x = vx v; y = vy v; z = vz v
      in normalize (Vector3 (e0 m * x + e4 m * y + e8 m * z)
                            (e1 m * x + e5 m * y + e9 m * z)
                            (e2 m * x + e6 m * y + e10 m * z)))"

subsection \<open>three.js \<^verbatim>\<open>Matrix4.invert\<close>\<close>

definition identity :: Matrix4 where
  "identity = Matrix4 1 0 0 0  0 1 0 0  0 0 1 0  0 0 0 1"

definition zeroMatrix :: Matrix4 where
  "zeroMatrix = Matrix4 0 0 0 0  0 0 0 0  0 0 0 0  0 0 0 0"

definition determinant :: "Matrix4 \<Rightarrow> real" where
  "determinant m =
     (let n11 = e0 m; n21 = e1 m; n31 = e2 m; n41 = e3 m;
          n12 = e4 m; n22 = e5 m; n32 = e6 m; n42 = e7 m;
          n13 = e8 m; n23 = e9 m; n33 = e10 m; n43 = e11 m;
          n14 = e12 m; n24 = e13 m; n34 = e14 m; n44 = e15 m;
          t11 = n23 * n34 * n42 - n24 * n33 * n42 + n24 * n32 * n43 - n22 * n34 * n43 - n23 * n32 * n44 + n22 * n33 * n44;
          t12 = n14 * n33 * n42 - n13 * n34 * n42 - n14 * n32 * n43 + n12 * n34 * n43 + n13 * n32 * n44 - n12 * n33 * n44;
          t13 = n13 * n24 * n42 - n14 * n23 * n42 + n14 * n22 * n43 - n12 * n24 * n43 - n13 * n22 * n44 + n12 * n23 * n44;
          t14 = n14 * n23 * n32 - n13 * n24 * n32 - n14 * n22 * n33 + n12 * n24 * n33 + n13 * n22 * n34 - n12 * n23 * n34
      in n11 * t11 + n21 * t12 + n31 * t13 + n41 * t14)"

definition invert :: "Matrix4 \<Rightarrow> Matrix4" where
  "invert m =
     (let n11 = e0 m; n21 = e1 m; n31 = e2 m; n41 = e3 m;
          n12 = e4 m; n22 = e5 m; n32 = e6 m; n42 = e7 m;
          n13 = e8 m; n23 = e9 m; n33 = e10 m; n43 = e11 m;
          n14 = e12 m; n24 = e13 m; n34 = e14 m; n44 = e15 m;
          t11 = n23 * n34 * n42 - n24 * n33 * n42 + n24 * n32 * n43 - n22 * n34 * n43 - n23 * n32 * n44 + n22 * n33 * n44;
          t12 = n14 * n33 * n42 - n13 * n34 * n42 - n14 * n32 * n43 + n12 * n34 * n43 + n13 * n32 * n44 - n12 * n33 * n44;
          t13 = n13 * n24 * n42 - n14 * n23 * n42 + n14 * n22 * n43 - n12 * n24 * n43 - n13 * n22 * n44 + n12 * n23 * n44;
          t14 = n14 * n23 * n32 - n13 * n24 * n32 - n14 * n22 * n33 + n12 * n24 * n33 + n13 * n22 * n34 - n12 * n23 * n34;
          det = n11 * t11 + n21 * t12 + n31 * t13 + n41 * t14
      in if det = 0 then zeroMatrix
         else let detInv = 1 / det in Matrix4
          (t11 * detInv)
          ((n24 * n33 * n41 - n23 * n34 * n41 - n24 * n31 * n43 + n21 * n34 * n43 + n23 * n31 * n44 - n21 * n33 * n44) * detInv)
          ((n22 * n34 * n41 - n24 * n32 * n41 + n24 * n31 * n42 - n21 * n34 * n42 - n22 * n31 * n44 + n21 * n32 * n44) * detInv)
          ((n23 * n32 * n41 - n22 * n33 * n41 - n23 * n31 * n42 + n21 * n33 * n42 + n22 * n31 * n43 - n21 * n32 * n43) * detInv)
          (t12 * detInv)
          ((n13 * n34 * n41 - n14 * n33 * n41 + n14 * n31 * n43 - n11 * n34 * n43 - n13 * n31 * n44 + n11 * n33 * n44) * detInv)
          ((n14 * n32 * n41 - n12 * n34 * n41 - n14 * n31 * n42 + n11 * n34 * n42 + n12 * n31 * n44 - n11 * n32 * n44) * detInv)
          ((n12 * n33 * n41 - n13 * n32 * n41 + n13 * n31 * n42 - n11 * n33 * n42 - n12 * n31 * n43 + n11 * n32 * n43) * detInv)
          (t13 * detInv)
          ((n14 * n23 * n41 - n13 * n24 * n41 - n14 * n21 * n43 + n11 * n24 * n43 + n13 * n21 * n44 - n11 * n23 * n44) * detInv)
          ((n12 * n24 * n41 - n14 * n22 * n41 + n14 * n21 * n42 - n11 * n24 * n42 - n12 * n21 * n44 + n11 * n22 * n44) * detInv)
          ((n13 * n22 * n41 - n12 * n23 * n41 - n13 * n21 * n42 + n11 * n23 * n42 + n12 * n21 * n43 - n11 * n22 * n43) * detInv)
          (t14 * detInv)
          ((n13 * n24 * n31 - n14 * n23 * n31 + n14 * n21 * n33 - n11 * n24 * n33 - n13 * n21 * n34 + n11 * n23 * n34) * detInv)
          ((n14 * n22 * n31 - n12 * n24 * n31 - n14 * n21 * n32 + n11 * n24 * n32 + n12 * n21 * n34 - n11 * n22 * n34) * detInv)
          ((n12 * n23 * n31 - n13 * n22 * n31 + n13 * n21 * n32 - n11 * n23 * n32 - n12 * n21 * n33 + n11 * n22 * n33) * detInv))"

definition multiply :: "Matrix4 \<Rightarrow> Matrix4 \<Rightarrow> Matrix4" where
  "multiply a b = Matrix4
     (e0 a * e0 b + e4 a * e1 b + e8 a * e2 b + e12 a * e3 b)
     (e1 a * e0 b + e5 a * e1 b + e9 a * e2 b + e13 a * e3 b)
     (e2 a * e0 b + e6 a * e1 b + e10 a * e2 b + e14 a * e3 b)
     (e3 a * e0 b + e7 a * e1 b + e11 a * e2 b + e15 a * e3 b)
     (e0 a * e4 b + e4 a * e5 b + e8 a * e6 b + e12 a * e7 b)
     (e1 a * e4 b + e5 a * e5 b + e9 a * e6 b + e13 a * e7 b)
     (e2 a * e4 b + e6 a * e5 b + e10 a * e6 b + e14 a * e7 b)
     (e3 a * e4 b + e7 a * e5 b + e11 a * e6 b + e15 a * e7 b)
     (e0 a * e8 b + e4 a * e9 b + e8 a * e10 b + e12 a * e11 b)
     (e1 a * e8 b + e5 a * e9 b + e9 a * e10 b + e13 a * e11 b)
     (e2 a * e8 b + e6 a * e9 b + e10 a * e10 b + e14 a * e11 b)
     (e3 a * e8 b + e7 a * e9 b + e11 a * e10 b + e15 a * e11 b)
     (e0 a * e12 b + e4 a * e13 b + e8 a * e14 b + e12 a * e15 b)
     (e1 a * e12 b + e5 a * e13 b + e9 a * e14 b + e13 a * e15 b)
     (e2 a * e12 b + e6 a * e13 b + e10 a * e14 b + e14 a * e15 b)
     (e3 a * e12 b + e7 a * e13 b + e11 a * e14 b + e15 a * e15 b)"

subsection \<open>Geometry, mesh and scene graph\<close>

text \<open>
  A position attribute is read and written one vertex at a time
  (\<^verbatim>\<open>fromBufferAttribute\<close>, \<^verbatim>\<open>setXYZ\<close>), so it is a list of vectors indexed by the
  vertex number. An entry of the normal attribute is \<open>Some n\<close>, or \<open>None\<close> for the
  vector whose three components are NaN: that is what three.js computes for a vertex
  of a triangle with an index outside the position attribute.
\<close>

record Geometry =
  position :: "Vector3 list"
  index :: "nat list option"
  normal :: "Vector3 option list option"

record Mesh =
  geometry :: "Geometry option"
  matrixWorld :: Matrix4

text \<open>
  A mesh as a loader hands it over: its geometry, if it has one, may lack the position
  attribute. \<open>Geometry\<close> and \<open>Mesh\<close> above describe a mesh whose geometry has one; only such
  a mesh, or one without geometry, is ever installed as the sculpted mesh.
\<close>

datatype LoadedGeometry = WithoutPosition | WithPosition Geometry

record LoadedMesh =
  loadedGeometry :: "LoadedGeometry option"
  loadedMatrixWorld :: Matrix4

datatype Object3D = Object3D (mesh: "LoadedMesh option") (children: "Object3D list")

text \<open>\<^verbatim>\<open>Object3D.traverse\<close> visits the object, then its children in order.\<close>

fun traverse :: "Object3D \<Rightarrow> Object3D list" where
  "traverse (Object3D m cs) = Object3D m cs # concat (map traverse cs)"

subsection \<open>three.js \<^verbatim>\<open>BufferGeometry.computeVertexNormals\<close>\<close>

definition fromBufferAttribute :: "Vector3 list \<Rightarrow> nat option \<Rightarrow> Vector3 option" where
  "fromBufferAttribute attr i =
     (case i of None \<Rightarrow> None
      | Some k \<Rightarrow> if k < length attr then Some (attr ! k) else None)"

definition getNormal :: "Vector3 option list \<Rightarrow> nat option \<Rightarrow> Vector3 option" where
  "getNormal attr i =
     (case i of None \<Rightarrow> None
      | Some k \<Rightarrow> if k < length attr then attr ! k else None)"

text \<open>A write outside a typed array is ignored.\<close>

definition setXYZ :: "'a list \<Rightarrow> nat option \<Rightarrow> 'a \<Rightarrow> 'a list" where
  "setXYZ attr i v = (case i of None \<Rightarrow> attr | Some k \<Rightarrow> attr[k := v])"

definition faceNormal :: "Vector3 option \<Rightarrow> Vector3 option \<Rightarrow> Vector3 option \<Rightarrow> Vector3 option" where
  "faceNormal pA pB pC =
     (case pA of None \<Rightarrow> None
      | Some a \<Rightarrow> (case pB of None \<Rightarrow> None
         | Some b \<Rightarrow> (case pC of None \<Rightarrow> None
            | Some c \<Rightarrow> Some (cross (sub c b) (sub a b)))))"

definition addNormal :: "Vector3 option \<Rightarrow> Vector3 option \<Rightarrow> Vector3 option" where
  "addNormal n cb =
     (case n of None \<Rightarrow> None
      | Some u \<Rightarrow> (case cb of None \<Rightarrow> None | Some v \<Rightarrow> Some (add u v)))"

definition indexedTriangle ::
  "Vector3 list \<Rightarrow> nat option \<Rightarrow> nat option \<Rightarrow> nat option \<Rightarrow> Vector3 option list \<Rightarrow> Vector3 option list" where
  "indexedTriangle pos vA vB vC nrm =
     (let cb = faceNormal (fromBufferAttribute pos vA) (fromBufferAttribute pos vB)
                          (fromBufferAttribute pos vC);
          nA = addNormal (getNormal nrm vA) cb;
          nB = addNormal (getNormal nrm vB) cb;
          nC = addNormal (getNormal nrm vC) cb
      in setXYZ (setXYZ (setXYZ nrm vA nA) vB nB) vC nC)"

text \<open>The loop over the index in steps of three; a last incomplete group reads \<^verbatim>\<open>undefined\<close>.\<close>

fun indexedNormals :: "Vector3 list \<Rightarrow> nat list \<Rightarrow> Vector3 option list \<Rightarrow> Vector3 option list" where
  "indexedNormals pos [] nrm = nrm"
| "indexedNormals pos [a] nrm = indexedTriangle pos (Some a) None None nrm"
| "indexedNormals pos [a, b] nrm = indexedTriangle pos (Some a) (Some b) None nrm"
| "indexedNormals pos (a # b # c # rest) nrm =
     indexedNormals pos rest (indexedTriangle pos (Some a) (Some b) (Some c) nrm)"

text \<open>The loop of a geometry without index: every three vertices are one triangle.\<close>

function soupNormals :: "Vector3 list \<Rightarrow> nat \<Rightarrow> Vector3 option list \<Rightarrow> Vector3 option list" where
  "soupNormals pos i nrm =
     (if i < length pos then
        let cb = faceNormal (fromBufferAttribute pos (Some i)) (fromBufferAttribute pos (Some (i + 1)))
                            (fromBufferAttribute pos (Some (i + 2)))
        in soupNormals pos (i + 3) (nrm[i := cb, i + 1 := cb, i + 2 := cb])
      else nrm)"
  by pat_completeness auto
termination
  by (relation "measure (\<lambda>(pos, i, nrm). length pos - i)") auto

definition normalizeNormals :: "Vector3 option list \<Rightarrow> Vector3 option list" where
  "normalizeNormals nrm = map (map_option normalize) nrm"

text \<open>
  The normals three.js derives from a position attribute and an optional index, for a
  normal attribute of \<open>count\<close> entries: reset to zero, one pass over the triangles,
  then \<^verbatim>\<open>normalizeNormals\<close>.
\<close>

definition vertexNormals :: "Vector3 list \<Rightarrow> nat list option \<Rightarrow> nat \<Rightarrow> Vector3 option list" where
  "vertexNormals pos idx count =
     (let zeros = replicate count (Some (Vector3 0 0 0));
          summed = (case idx of
                      Some ix \<Rightarrow> indexedNormals pos ix zeros
                    | None \<Rightarrow> soupNormals pos 0 zeros)
      in normalizeNormals summed)"

text \<open>A geometry without normal attribute gets one with an entry for every vertex.\<close>

definition normalCount :: "Geometry \<Rightarrow> nat" where
  "normalCount g = (case normal g of None \<Rightarrow> length (position g) | Some old \<Rightarrow> length old)"

definition computeVertexNormals :: "Geometry \<Rightarrow> Geometry" where
  "computeVertexNormals g = g\<lparr>normal := Some (vertexNormals (position g) (index g) (normalCount g))\<rparr>"

section \<open>The component \<^verbatim>\<open>EditableScene\<close>\<close>

text \<open>
  The props (\<open>brushSize\<close>, \<open>brushStrength\<close>, \<open>activeTool\<close>), the state variables of the
  component and the pointer vector \<open>mouse\<close> shared with the renderer, as one record.
  A state setter is an update of the record. The functions below are those of one
  render: they read the record they are given. Which record a registered pointer
  listener is given is settled in \<open>step\<close>; the last field holds what it needs for that,
  the value \<open>lastMousePosition\<close> had in the render whose handlers are registered.
\<close>

record EditableScene =
  brushSize :: real
  brushStrength :: real
  activeTool :: Tool
  meshRef :: "Mesh option"
  brushPosition :: Vector3
  isModifying :: bool
  lastMousePosition :: Vector2
  originalVertices :: "Vector3 list option"
  isLoading :: bool
  mouse :: Vector2
  listenerLastMousePosition :: Vector2

subsection \<open>\<^verbatim>\<open>sculptMesh\<close>\<close>

text \<open>The \<^verbatim>\<open>switch (activeTool)\<close> of the loop body, applied to \<open>tempVector\<close>.\<close>

definition applyTool ::
  "EditableScene \<Rightarrow> Matrix4 \<Rightarrow> Vector3 \<Rightarrow> Vector3 option \<Rightarrow> real \<Rightarrow> Vector3 \<Rightarrow> Vector3" where
  "applyTool s inverseMatrix localPoint nrm falloff tempVector =
     (case activeTool s of
        SCULPT \<Rightarrow>
          (case nrm of
             Some n \<Rightarrow>
               let tempNormal = transformDirection n inverseMatrix
               in addScaledVector tempVector tempNormal (brushStrength s * falloff * 0.01)
           | None \<Rightarrow> tempVector)
      | SMOOTH \<Rightarrow>
          let smoothFactor = brushStrength s * falloff * 0.01
          in lerp tempVector localPoint smoothFactor
      | PINCH \<Rightarrow>
          let dir = sub localPoint tempVector
          in addScaledVector tempVector dir (brushStrength s * falloff * 0.01)
      | MOVE \<Rightarrow>
          let mouseDelta = Vector2 (x2 (mouse s) - x2 (lastMousePosition s))
                                   (y2 (mouse s) - y2 (lastMousePosition s));
              moveFactor = brushStrength s * falloff * 0.02
          in Vector3 (vx tempVector + x2 mouseDelta * moveFactor)
                     (vy tempVector - y2 mouseDelta * moveFactor)
                     (vz tempVector))"

text \<open>The loop \<^verbatim>\<open>for (let i = 0; i < posAttr.count; i++)\<close>, from index \<open>i\<close> on.\<close>

function sculptLoop ::
  "EditableScene \<Rightarrow> Matrix4 \<Rightarrow> Vector3 \<Rightarrow> Vector3 option \<Rightarrow> nat \<Rightarrow> Vector3 list \<Rightarrow> Vector3 list" where
  "sculptLoop s inverseMatrix localPoint nrm i posAttr =
     (if i < length posAttr then
        let tempVector = posAttr ! i;
            dist = distanceTo tempVector localPoint
        in if dist < brushSize s then
             let falloff = 1 - dist / brushSize s;
                 tempVector' = applyTool s inverseMatrix localPoint nrm falloff tempVector
             in sculptLoop s inverseMatrix localPoint nrm (i + 1) (posAttr[i := tempVector'])
           else sculptLoop s inverseMatrix localPoint nrm (i + 1) posAttr
      else posAttr)"
  by pat_completeness auto
termination
  by (relation "measure (\<lambda>(s, inverseMatrix, localPoint, nrm, i, posAttr). length posAttr - i)") auto

text \<open>
  No distance to a local point with an infinite or NaN coordinate is below the brush
  radius: the loop writes nothing then, and the rest of the function runs as usual.
\<close>

definition sculptMesh :: "Vector3 \<Rightarrow> Vector3 option \<Rightarrow> EditableScene \<Rightarrow> EditableScene" where
  "sculptMesh point nrm s =
     (case meshRef s of
        None \<Rightarrow> s
      | Some m \<Rightarrow>
          (case geometry m of
             None \<Rightarrow> s
           | Some g \<Rightarrow>
               let worldMatrix = matrixWorld m;
                   inverseMatrix = invert worldMatrix;
                   localPoint = applyMatrix4 point inverseMatrix;
                   posAttr = (case localPoint of
                                Some lp \<Rightarrow> sculptLoop s inverseMatrix lp nrm 0 (position g)
                              | None \<Rightarrow> position g);
                   g' = computeVertexNormals (g\<lparr>position := posAttr\<rparr>)
               in s\<lparr>meshRef := Some (m\<lparr>geometry := Some g'\<rparr>),
                    lastMousePosition := Vector2 (x2 (mouse s)) (y2 (mouse s))\<rparr>))"

subsection \<open>Pointer handlers\<close>

record MouseEvent =
  button :: int
  clientX :: real
  clientY :: real

record DOMRect =
  left :: real
  top :: real
  width :: real
  height :: real

text \<open>
  \<^verbatim>\<open>handlePointerMove\<close>: \<open>intersects\<close> is the result of the ray cast against the mesh,
  each hit with its point and the normal of its face, if it has one. The rectangle is
  that of the canvas under the pointer, of positive width and height.
\<close>

definition handlePointerMove ::
  "MouseEvent \<Rightarrow> DOMRect \<Rightarrow> (Vector3 \<times> Vector3 option) list \<Rightarrow> EditableScene \<Rightarrow> EditableScene" where
  "handlePointerMove event rect intersects s =
     (let s1 = s\<lparr>mouse := Vector2 (((clientX event - left rect) / width rect) * 2 - 1)
                                  (- ((clientY event - top rect) / height rect) * 2 + 1)\<rparr>
      in case intersects of
           [] \<Rightarrow> s1
         | hit # _ \<Rightarrow>
             let s2 = s1\<lparr>brushPosition := fst hit\<rparr>
             in if isModifying s2 then sculptMesh (fst hit) (snd hit) s2 else s2)"

definition handlePointerDown :: "MouseEvent \<Rightarrow> EditableScene \<Rightarrow> EditableScene" where
  "handlePointerDown event s =
     (if button event = 0
      then s\<lparr>isModifying := True, lastMousePosition := Vector2 (x2 (mouse s)) (y2 (mouse s))\<rparr>
      else s)"

definition handlePointerUp :: "EditableScene \<Rightarrow> EditableScene" where
  "handlePointerUp s = s\<lparr>isModifying := False\<rparr>"

subsection \<open>\<^verbatim>\<open>resetMesh\<close>\<close>

datatype error = RangeError | TypeError

text \<open>\<^verbatim>\<open>TypedArray.prototype.set\<close>: copies to the front, throws when the source is longer.\<close>

definition arraySet :: "'a list \<Rightarrow> 'a list \<Rightarrow> error + 'a list" where
  "arraySet target source =
     (if length source > length target then Inl RangeError
      else Inr (source @ drop (length source) target))"

definition resetMesh :: "EditableScene \<Rightarrow> error + EditableScene" where
  "resetMesh s =
     (case meshRef s of
        None \<Rightarrow> Inr s
      | Some m \<Rightarrow>
          (case geometry m of
             None \<Rightarrow> Inr s
           | Some g \<Rightarrow>
               (case originalVertices s of
                  None \<Rightarrow> Inr s
                | Some ov \<Rightarrow>
                    (case arraySet (position g) ov of
                       Inl e \<Rightarrow> Inl e
                     | Inr arr \<Rightarrow>
                         Inr (s\<lparr>meshRef := Some (m\<lparr>geometry :=
                                  Some (computeVertexNormals (g\<lparr>position := arr\<rparr>))\<rparr>)\<rparr>)))))"

subsection \<open>Loading\<close>

text \<open>
  \<^verbatim>\<open>processLoadedModel\<close>: the first mesh of the traversal becomes the sculpted mesh.
  Reading \<^verbatim>\<open>mainMesh.geometry.attributes.position.array\<close> throws a TypeError when the
  geometry has no position attribute, before any setter is called. Materials, and the
  centring and scaling of the loaded object (which change its placement in the scene,
  not the position attribute), are not modelled; the renderer keeps \<open>matrixWorld\<close> up to
  date.
\<close>

definition mainMeshOf :: "Object3D \<Rightarrow> LoadedMesh option" where
  "mainMeshOf loadedObject =
     (case List.map_filter mesh (traverse loadedObject) of [] \<Rightarrow> None | m # _ \<Rightarrow> Some m)"

definition processLoadedModel :: "Object3D \<Rightarrow> EditableScene \<Rightarrow> error + EditableScene" where
  "processLoadedModel loadedObject s =
     (case mainMeshOf loadedObject of
        None \<Rightarrow> Inr (s\<lparr>isLoading := False\<rparr>)
      | Some mainMesh \<Rightarrow>
          (case loadedGeometry mainMesh of
             Some (WithPosition g) \<Rightarrow>
               let g' = computeVertexNormals g
               in Inr (s\<lparr>originalVertices := Some (position g'),
                         meshRef := Some \<lparr>geometry = Some g',
                                           matrixWorld = loadedMatrixWorld mainMesh\<rparr>,
                         isLoading := False\<rparr>)
           | Some WithoutPosition \<Rightarrow> Inl TypeError
           | None \<Rightarrow>
               Inr (s\<lparr>meshRef := Some \<lparr>geometry = None,
                                           matrixWorld = loadedMatrixWorld mainMesh\<rparr>,
                         isLoading := False\<rparr>)))"

text \<open>The start of the loading effect, run when a model URL is set.\<close>

definition beginLoad :: "EditableScene \<Rightarrow> EditableScene" where
  "beginLoad s =
     (case meshRef s of
        Some m \<Rightarrow> s\<lparr>isLoading := True, meshRef := None, originalVertices := None\<rparr>
      | None \<Rightarrow> s\<lparr>isLoading := True\<rparr>)"

text \<open>
  The loading effect with the callback of the loader. An exception in the callback
  leaves the state as the start of the effect has set it. A new mesh is a changed
  dependency of the effect that registers the pointer listeners: the handlers of the
  render after the load are registered.
\<close>

definition loadModel :: "Object3D \<Rightarrow> EditableScene \<Rightarrow> EditableScene" where
  "loadModel loadedObject s =
     (let s1 = beginLoad s
      in case processLoadedModel loadedObject s1 of
           Inl e \<Rightarrow> s1
         | Inr s2 \<Rightarrow> s2\<lparr>listenerLastMousePosition := lastMousePosition s2\<rparr>)"


section \<open>Observations and runs\<close>

text \<open>The vertex positions and the normals of the sculpted mesh, as a caller reads them.\<close>

definition positionsOf :: "EditableScene \<Rightarrow> Vector3 list" where
  "positionsOf s =
     (case meshRef s of None \<Rightarrow> []
      | Some m \<Rightarrow> (case geometry m of None \<Rightarrow> [] | Some g \<Rightarrow> position g))"

definition normalsOf :: "EditableScene \<Rightarrow> Vector3 option list option" where
  "normalsOf s =
     (case meshRef s of None \<Rightarrow> None
      | Some m \<Rightarrow> (case geometry m of None \<Rightarrow> None | Some g \<Rightarrow> normal g))"

text \<open>The contact point in the local space of the mesh, as \<open>sculptMesh\<close> computes it.\<close>

definition localPointOf :: "Mesh \<Rightarrow> Vector3 \<Rightarrow> Vector3 option" where
  "localPointOf m point = applyMatrix4 point (invert (matrixWorld m))"

text \<open>What one pass of the loop of \<open>sculptMesh\<close> leaves at a vertex.\<close>

definition sculptVertex ::
  "EditableScene \<Rightarrow> Matrix4 \<Rightarrow> Vector3 \<Rightarrow> Vector3 option \<Rightarrow> Vector3 \<Rightarrow> Vector3" where
  "sculptVertex s inverseMatrix localPoint nrm v =
     (if distanceTo v localPoint < brushSize s
      then applyTool s inverseMatrix localPoint nrm (1 - distanceTo v localPoint / brushSize s) v
      else v)"

text \<open>How far one call of \<open>sculptMesh\<close> moves the vertex \<open>i\<close>.\<close>

definition displacement :: "EditableScene \<Rightarrow> Vector3 \<Rightarrow> Vector3 option \<Rightarrow> nat \<Rightarrow> real" where
  "displacement s point nrm i =
     distanceTo (positionsOf (sculptMesh point nrm s) ! i) (positionsOf s ! i)"

text \<open>\<^verbatim>\<open>Matrix4.setPosition\<close>: the same matrix with another translation column.\<close>

definition setPosition :: "Matrix4 \<Rightarrow> Vector3 \<Rightarrow> Matrix4" where
  "setPosition m t = Matrix4 (e0 m) (e1 m) (e2 m) (e3 m) (e4 m) (e5 m) (e6 m) (e7 m)
                             (e8 m) (e9 m) (e10 m) (e11 m) (vx t) (vy t) (vz t) (e15 m)"

text \<open>
  The component is rendered again after a call that has set a state variable and after
  a change of a prop, with the updates of one call together. The effect that registers
  the pointer listeners names \<open>isModifying\<close>, \<open>activeTool\<close>, \<open>brushSize\<close>, \<open>brushStrength\<close> and
  \<open>meshRef\<close> among its dependencies (and objects that stay the same), but not
  \<open>lastMousePosition\<close>: it registers the handlers of the new render only when one of the
  dependencies has changed. No handler sets \<open>meshRef\<close>; the mesh is changed in place.
\<close>

definition rerender :: "EditableScene \<Rightarrow> EditableScene \<Rightarrow> EditableScene" where
  "rerender before after =
     (if isModifying after = isModifying before \<and> activeTool after = activeTool before
         \<and> brushSize after = brushSize before \<and> brushStrength after = brushStrength before
      then after
      else after\<lparr>listenerLastMousePosition := lastMousePosition after\<rparr>)"

text \<open>
  The record as the registered handlers read it: every dependency of the effect is
  current, and so are the objects that are changed in place (the mesh, \<open>mouse\<close>);
  \<open>lastMousePosition\<close> is that of the render of the handlers.
\<close>

definition listenerView :: "EditableScene \<Rightarrow> EditableScene" where
  "listenerView s = s\<lparr>lastMousePosition := listenerLastMousePosition s\<rparr>"

text \<open>
  \<^verbatim>\<open>handlePointerMove\<close> reaches \<^verbatim>\<open>setLastMousePosition\<close> when the ray hits, a stroke is
  going on and \<open>sculptMesh\<close> passes its guard.
\<close>

definition storesCursor :: "(Vector3 \<times> Vector3 option) list \<Rightarrow> EditableScene \<Rightarrow> bool" where
  "storesCursor intersects s =
     (intersects \<noteq> [] \<and> isModifying s
      \<and> (case meshRef s of None \<Rightarrow> False | Some m \<Rightarrow> geometry m \<noteq> None))"

text \<open>
  The registered \<^verbatim>\<open>handlePointerMove\<close>: it computes with what it reads, and its setters
  write the state; where it does not set \<open>lastMousePosition\<close>, the state keeps its own.
\<close>

definition listenerPointerMove ::
  "MouseEvent \<Rightarrow> DOMRect \<Rightarrow> (Vector3 \<times> Vector3 option) list \<Rightarrow> EditableScene \<Rightarrow> EditableScene" where
  "listenerPointerMove event rect intersects s =
     (let after = handlePointerMove event rect intersects (listenerView s)
      in if storesCursor intersects s then after
         else after\<lparr>lastMousePosition := lastMousePosition s\<rparr>)"

text \<open>
  What can happen to a mounted component: the pointer listeners (the effect registers
  them only while there is a mesh), a change of the props, the renderer updating the
  world matrix of the mesh, and a reset (an exception of \<open>resetMesh\<close> leaves the state as it
  was).
\<close>

datatype Event =
    PointerDown MouseEvent
  | PointerMove MouseEvent DOMRect "(Vector3 \<times> Vector3 option) list"
  | PointerUp
  | SetTool Tool
  | SetBrushSize real
  | SetBrushStrength real
  | UpdateMatrixWorld Matrix4
  | Reset

fun step :: "EditableScene \<Rightarrow> Event \<Rightarrow> EditableScene" where
  "step s (PointerDown event) =
     (case meshRef s of None \<Rightarrow> s | Some m \<Rightarrow> rerender s (handlePointerDown event s))"
| "step s (PointerMove event rect intersects) =
     (case meshRef s of
        None \<Rightarrow> s
      | Some m \<Rightarrow> rerender s (listenerPointerMove event rect intersects s))"
| "step s PointerUp =
     (case meshRef s of None \<Rightarrow> s | Some m \<Rightarrow> rerender s (handlePointerUp s))"
| "step s (SetTool t) = rerender s (s\<lparr>activeTool := t\<rparr>)"
| "step s (SetBrushSize r) = rerender s (s\<lparr>brushSize := r\<rparr>)"
| "step s (SetBrushStrength k) = rerender s (s\<lparr>brushStrength := k\<rparr>)"
| "step s (UpdateMatrixWorld w) =
     (case meshRef s of None \<Rightarrow> s | Some m \<Rightarrow> s\<lparr>meshRef := Some (m\<lparr>matrixWorld := w\<rparr>)\<rparr>)"
| "step s Reset = (case resetMesh s of Inl e \<Rightarrow> s | Inr s' \<Rightarrow> s')"

definition run :: "EditableScene \<Rightarrow> Event list \<Rightarrow> EditableScene" where
  "run s events = foldl step s events"

text \<open>The scene holds a mesh loaded with the geometry \<open>g\<close>, whatever was sculpted since:
  same index, as many vertices, normals that belong to the positions, and the snapshot of
  the loaded positions.\<close>

definition loadedFrom :: "Geometry \<Rightarrow> EditableScene \<Rightarrow> bool" where
  "loadedFrom g s =
     (\<exists>m gg. meshRef s = Some m \<and> geometry m = Some gg
        \<and> index gg = index g
        \<and> normal gg = Some (vertexNormals (position gg) (index g) (normalCount g))
        \<and> length (position gg) = length (position g)
        \<and> originalVertices s = Some (position g))"

subsection \<open>Concrete scenes\<close>

text \<open>The state of a freshly mounted component, with the defaults of \<^verbatim>\<open>SimpleViewer\<close>.\<close>

definition initialScene :: EditableScene where
  "initialScene = \<lparr>brushSize = 0.2, brushStrength = 5, activeTool = SCULPT, meshRef = None,
     brushPosition = Vector3 0 0 0, isModifying = False, lastMousePosition = Vector2 0 0,
     originalVertices = None, isLoading = False, mouse = Vector2 0 0,
     listenerLastMousePosition = Vector2 0 0\<rparr>"

text \<open>
  A mesh of one triangle with its vertices on the local x axis, at the distances
  \<open>0\<close>, \<open>1/2\<close> and \<open>2\<close> from the local origin; the mesh is placed in the world with scale
  \<open>2\<close> and translation \<open>(1, 0, 0)\<close>, so that the world point \<open>(1, 0, 0)\<close> is its origin.
\<close>

definition lineMatrix :: Matrix4 where
  "lineMatrix = Matrix4 2 0 0 0  0 2 0 0  0 0 2 0  1 0 0 1"

definition lineGeometry :: Geometry where
  "lineGeometry = \<lparr>position = [Vector3 0 0 0, Vector3 (1/2) 0 0, Vector3 2 0 0],
                    index = None, normal = None\<rparr>"

definition lineMesh :: Mesh where
  "lineMesh = \<lparr>geometry = Some lineGeometry, matrixWorld = lineMatrix\<rparr>"

definition lineObject :: Object3D where
  "lineObject = Object3D None
     [Object3D (Some \<lparr>loadedGeometry = Some (WithPosition lineGeometry),
                        loadedMatrixWorld = lineMatrix\<rparr>) []]"

definition lineScene :: "Tool \<Rightarrow> real \<Rightarrow> real \<Rightarrow> EditableScene" where
  "lineScene tool radius strength =
     (loadModel lineObject initialScene)
       \<lparr>brushSize := radius, brushStrength := strength, activeTool := tool\<rparr>"

definition lineContact :: Vector3 where
  "lineContact = Vector3 1 0 0"

text \<open>
  A stroke on that mesh, on a canvas of width and height \<open>2\<close> at the origin of the page,
  where the client position \<open>(x, y)\<close> is the cursor \<open>(x - 1, 1 - y)\<close>: pointer down and a
  first sample at the cursor \<open>(0, 0)\<close>, then samples at the cursor \<open>(1/10, 0)\<close>. Every ray
  hits the mesh at \<open>lineContact\<close>.
\<close>

definition canvasRect :: DOMRect where
  "canvasRect = \<lparr>left = 0, top = 0, width = 2, height = 2\<rparr>"

definition pointerAt :: "real \<Rightarrow> real \<Rightarrow> MouseEvent" where
  "pointerAt x y = \<lparr>button = 0, clientX = x, clientY = y\<rparr>"

definition strokeStart :: "Event list" where
  "strokeStart = [PointerDown (pointerAt 1 1),
                  PointerMove (pointerAt 1 1) canvasRect [(lineContact, None)]]"

definition strokeSample :: Event where
  "strokeSample = PointerMove (pointerAt (11/10) 1) canvasRect [(lineContact, None)]"

text \<open>A sample at the cursor \<open>(1/10, 1/5)\<close>, to the right of and above the cursor of pointer down.\<close>

definition strokeSampleUp :: Event where
  "strokeSampleUp = PointerMove (pointerAt (11/10) (4/5)) canvasRect [(lineContact, None)]"

text \<open>
  A mesh of one triangle in the plane \<open>z = 0\<close>, without index, placed at the origin of the
  world; the brush reaches the vertex at the origin only.
\<close>

definition triGeometry :: Geometry where
  "triGeometry = \<lparr>position = [Vector3 0 0 0, Vector3 1 0 0, Vector3 0 1 0],
                   index = None, normal = None\<rparr>"

definition triObject :: Object3D where
  "triObject = Object3D (Some \<lparr>loadedGeometry = Some (WithPosition triGeometry),
                                   loadedMatrixWorld = identity\<rparr>) []"

definition triScene :: EditableScene where
  "triScene = (loadModel triObject initialScene)
                \<lparr>brushSize := 1, brushStrength := 200, activeTool := SCULPT\<rparr>"




section \<open>Lemmas on the library operations and the loop\<close>

declare sculptLoop.simps [simp del]

declare soupNormals.simps [simp del]

lemma sculptLoop_eq:
  "sculptLoop s im lp nrm i ps = take i ps @ map (sculptVertex s im lp nrm) (drop i ps)"
proof (induction s im lp nrm i ps rule: sculptLoop.induct)
  case (1 s im lp nrm i ps)
  show ?case
  proof (cases "i < length ps")
    case False
    then show ?thesis by (subst sculptLoop.simps) simp
  next
    case True
    note lt = True
    have split: "drop i ps = ps ! i # drop (Suc i) ps"
      using lt by (simp add: Cons_nth_drop_Suc)
    show ?thesis
    proof (cases "distanceTo (ps ! i) lp < brushSize s")
      case True
      let ?y = "applyTool s im lp nrm (1 - distanceTo (ps ! i) lp / brushSize s) (ps ! i)"
      have "sculptLoop s im lp nrm i ps = sculptLoop s im lp nrm (i + 1) (ps[i := ?y])"
        using lt True by (subst sculptLoop.simps) (simp add: Let_def)
      also have "\<dots> = take (i + 1) (ps[i := ?y]) @ map (sculptVertex s im lp nrm) (drop (i + 1) (ps[i := ?y]))"
        using "1.IH"(1)[OF lt refl refl True refl refl] .
      also have "\<dots> = take i ps @ map (sculptVertex s im lp nrm) (drop i ps)"
        using lt True by (simp add: split take_Suc_conv_app_nth sculptVertex_def)
      finally show ?thesis .
    next
      case False
      have "sculptLoop s im lp nrm i ps = sculptLoop s im lp nrm (i + 1) ps"
        using lt False by (subst sculptLoop.simps) (simp add: Let_def)
      also have "\<dots> = take (i + 1) ps @ map (sculptVertex s im lp nrm) (drop (i + 1) ps)"
        using "1.IH"(2)[OF lt refl refl False] .
      also have "\<dots> = take i ps @ map (sculptVertex s im lp nrm) (drop i ps)"
        using lt False by (simp add: split take_Suc_conv_app_nth sculptVertex_def)
      finally show ?thesis .
    qed
  qed
qed

lemma sculptLoop_map: "sculptLoop s im lp nrm 0 ps = map (sculptVertex s im lp nrm) ps"
  by (simp add: sculptLoop_eq)

lemma position_computeVertexNormals [simp]: "position (computeVertexNormals g) = position g"
  by (simp add: computeVertexNormals_def)

lemma index_computeVertexNormals [simp]: "index (computeVertexNormals g) = index g"
  by (simp add: computeVertexNormals_def)

lemma positionsOf_sculptMesh:
  assumes "meshRef s = Some m" and "geometry m = Some g" and "localPointOf m point = Some lp"
  shows "positionsOf (sculptMesh point nrm s) =
         map (sculptVertex s (invert (matrixWorld m)) lp nrm) (position g)"
  using assms by (simp add: sculptMesh_def positionsOf_def Let_def sculptLoop_map localPointOf_def)

lemma positionsOf_sculptMesh_None:
  assumes "meshRef s = Some m" and "geometry m = Some g" and "localPointOf m point = None"
  shows "positionsOf (sculptMesh point nrm s) = position g"
  using assms by (simp add: sculptMesh_def positionsOf_def Let_def localPointOf_def)

subsection \<open>Distances and directions\<close>

lemma distanceTo_nonneg: "0 \<le> distanceTo a b"
  by (simp add: distanceTo_def distanceToSquared_def Let_def)

lemma distanceTo_x_axis: "distanceTo (Vector3 a y z) (Vector3 b y z) = \<bar>a - b\<bar>"
  by (simp add: distanceTo_def distanceToSquared_def Let_def)

lemma distanceTo_z_axis: "distanceTo (Vector3 x y a) (Vector3 x y b) = \<bar>a - b\<bar>"
  by (simp add: distanceTo_def distanceToSquared_def Let_def)

lemma distanceTo_addScaledVector: "distanceTo (addScaledVector v n k) v = \<bar>k\<bar> * length3 n"
proof -
  have "distanceToSquared (addScaledVector v n k) v = (k * k) * (vx n * vx n + vy n * vy n + vz n * vz n)"
    by (simp add: distanceToSquared_def addScaledVector_def Let_def algebra_simps)
  then show ?thesis
    by (simp add: distanceTo_def length3_def real_sqrt_mult)
qed

lemma distanceTo_lerp_from: "distanceTo (lerp v p a) v = \<bar>a\<bar> * distanceTo v p"
proof -
  have "distanceToSquared (lerp v p a) v = (a * a) * distanceToSquared v p"
    by (simp add: distanceToSquared_def lerp_def Let_def algebra_simps)
  then show ?thesis
    by (simp add: distanceTo_def real_sqrt_mult)
qed

lemma distanceTo_lerp_to: "distanceTo (lerp v p a) p = \<bar>1 - a\<bar> * distanceTo v p"
proof -
  have "distanceToSquared (lerp v p a) p = ((1 - a) * (1 - a)) * distanceToSquared v p"
    by (simp add: distanceToSquared_def lerp_def Let_def algebra_simps)
  then show ?thesis
    by (simp add: distanceTo_def real_sqrt_mult)
qed

lemma pinch_as_lerp: "addScaledVector v (sub p v) k = lerp v p k"
  by (simp add: addScaledVector_def sub_def lerp_def)

lemma length3_normalize: "length3 v \<noteq> 0 \<Longrightarrow> length3 (normalize v) = 1"
proof -
  assume nz: "length3 v \<noteq> 0"
  have pos: "0 < length3 v" using nz by (simp add: length3_def less_le)
  have "vx (normalize v) * vx (normalize v) + vy (normalize v) * vy (normalize v) + vz (normalize v) * vz (normalize v)
        = (vx v * vx v + vy v * vy v + vz v * vz v) / (length3 v * length3 v)"
    using nz by (simp add: normalize_def divideScalar_def multiplyScalar_def field_simps)
  also have "length3 v * length3 v = vx v * vx v + vy v * vy v + vz v * vz v"
    by (simp add: length3_def)
  finally have "length3 (normalize v) = sqrt ((vx v * vx v + vy v * vy v + vz v * vz v) / (vx v * vx v + vy v * vy v + vz v * vz v))"
    by (simp add: length3_def)
  moreover have "vx v * vx v + vy v * vy v + vz v * vz v \<noteq> 0"
    using nz by (simp add: length3_def)
  ultimately show ?thesis by simp
qed

lemma length3_zero: "length3 v = 0 \<Longrightarrow> v = Vector3 0 0 0"
proof -
  assume "length3 v = 0"
  then have "vx v * vx v + vy v * vy v + vz v * vz v = 0"
    by (simp add: length3_def)
  then have "vx v = 0 \<and> vy v = 0 \<and> vz v = 0"
    by (metis (no_types, opaque_lifting) add_nonneg_eq_0_iff mult_eq_0_iff zero_le_square add_nonneg_nonneg)
  then show ?thesis by (cases v) simp
qed

lemma normalize_unit_or_zero: "length3 (normalize v) = 1 \<or> normalize v = Vector3 0 0 0"
proof (cases "length3 v = 0")
  case True
  then have "v = Vector3 0 0 0" by (rule length3_zero)
  then show ?thesis by (simp add: normalize_def divideScalar_def multiplyScalar_def length3_def)
next
  case False
  then show ?thesis by (simp add: length3_normalize)
qed

lemma transformDirection_setPosition:
  "transformDirection n (setPosition M t) = transformDirection n M"
  by (simp add: transformDirection_def setPosition_def Let_def)

lemma applyTool_SCULPT:
  "activeTool s = SCULPT \<Longrightarrow> applyTool s im lp (Some n) f v = addScaledVector v (transformDirection n im) (brushStrength s * f * 0.01)"
  "activeTool s = SCULPT \<Longrightarrow> applyTool s im lp None f v = v"
  by (simp_all add: applyTool_def Let_def)

lemma applyTool_SMOOTH:
  "activeTool s = SMOOTH \<Longrightarrow> applyTool s im lp nrm f v = lerp v lp (brushStrength s * f * 0.01)"
  by (simp add: applyTool_def Let_def)

lemma applyTool_PINCH:
  "activeTool s = PINCH \<Longrightarrow> applyTool s im lp nrm f v = lerp v lp (brushStrength s * f * 0.01)"
  by (simp add: applyTool_def Let_def pinch_as_lerp)

lemma applyTool_MOVE:
  "activeTool s = MOVE \<Longrightarrow> applyTool s im lp nrm f v =
     Vector3 (vx v + (x2 (mouse s) - x2 (lastMousePosition s)) * (brushStrength s * f * 0.02))
             (vy v - (y2 (mouse s) - y2 (lastMousePosition s)) * (brushStrength s * f * 0.02))
             (vz v)"
  by (simp add: applyTool_def Let_def)

subsection \<open>The concrete scenes, evaluated\<close>

lemma invert_lineMatrix:
  "invert lineMatrix = Matrix4 (1/2) 0 0 0  0 (1/2) 0 0  0 0 (1/2) 0  (-1/2) 0 0 1"
  by (simp add: invert_def lineMatrix_def Let_def)

lemma lineScene_mesh:
  "meshRef (lineScene t r k) =
     Some \<lparr>geometry = Some (computeVertexNormals lineGeometry), matrixWorld = lineMatrix\<rparr>"
  by (simp add: lineScene_def loadModel_def beginLoad_def processLoadedModel_def mainMeshOf_def
      lineObject_def List.map_filter_def initialScene_def)

lemma lineScene_props [simp]:
  "brushSize (lineScene t r k) = r"
  "brushStrength (lineScene t r k) = k"
  "activeTool (lineScene t r k) = t"
  "mouse (lineScene t r k) = Vector2 0 0"
  "lastMousePosition (lineScene t r k) = Vector2 0 0"
  "listenerLastMousePosition (lineScene t r k) = Vector2 0 0"
  "isModifying (lineScene t r k) = False"
  by (simp_all add: lineScene_def loadModel_def beginLoad_def processLoadedModel_def mainMeshOf_def
      lineObject_def List.map_filter_def initialScene_def)

lemma position_line [simp]:
  "position lineGeometry = [Vector3 0 0 0, Vector3 (1/2) 0 0, Vector3 2 0 0]"
  by (simp add: lineGeometry_def)

lemma localPoint_line:
  "localPointOf \<lparr>geometry = gg, matrixWorld = lineMatrix\<rparr> lineContact = Some (Vector3 0 0 0)"
  by (simp add: localPointOf_def invert_lineMatrix applyMatrix4_def lineContact_def Let_def)

lemma sqrt_quarter: "sqrt (1/4) = 1/2"
  by (simp add: real_sqrt_divide)

lemma line_distances:
  "distanceTo (Vector3 0 0 0) (Vector3 0 0 0) = 0"
  "distanceTo (Vector3 (1/2) 0 0) (Vector3 0 0 0) = 1/2"
  "distanceTo (Vector3 2 0 0) (Vector3 0 0 0) = 2"
  by (simp_all add: distanceTo_def distanceToSquared_def Let_def sqrt_quarter)

lemma line_sculpt:
  "positionsOf (sculptMesh lineContact nrm (lineScene t 1 k)) =
     [applyTool (lineScene t 1 k) (invert lineMatrix) (Vector3 0 0 0) nrm 1 (Vector3 0 0 0),
      applyTool (lineScene t 1 k) (invert lineMatrix) (Vector3 0 0 0) nrm (1/2) (Vector3 (1/2) 0 0),
      Vector3 2 0 0]"
  by (simp add: positionsOf_sculptMesh[OF lineScene_mesh] localPoint_line sculptVertex_def
      line_distances)

lemma transformDirection_line: "transformDirection (Vector3 0 0 2) (invert lineMatrix) = Vector3 0 0 1"
  by (simp add: transformDirection_def invert_lineMatrix Let_def normalize_def length3_def
      divideScalar_def multiplyScalar_def)

subsection \<open>Tools that coincide, brushes without effect\<close>

lemma sculptVertex_PINCH_SMOOTH:
  "sculptVertex (s\<lparr>activeTool := PINCH\<rparr>) im lp nrm = sculptVertex (s\<lparr>activeTool := SMOOTH\<rparr>) im lp nrm"
  by (rule ext) (simp add: sculptVertex_def applyTool_PINCH applyTool_SMOOTH)

lemma sculptVertex_noop:
  assumes "brushSize s \<le> 0 \<or> brushStrength s = 0 \<or> (activeTool s = SCULPT \<and> nrm = None)"
  shows "sculptVertex s im lp nrm v = v"
proof (cases "distanceTo v lp < brushSize s")
  case False
  then show ?thesis by (simp add: sculptVertex_def)
next
  case True
  then have "\<not> brushSize s \<le> 0"
    using distanceTo_nonneg[of v lp] by simp
  with assms have "brushStrength s = 0 \<or> (activeTool s = SCULPT \<and> nrm = None)" by simp
  then have "applyTool s im lp nrm f v = v" for f
    by (cases "activeTool s"; cases nrm; cases v)
       (auto simp: applyTool_def Let_def addScaledVector_def lerp_def)
  then show ?thesis by (simp add: sculptVertex_def)
qed

lemma positionsOf_lineScene: "positionsOf (lineScene t r k) = [Vector3 0 0 0, Vector3 (1/2) 0 0, Vector3 2 0 0]"
  by (simp add: positionsOf_def lineScene_mesh)

lemma transformDirection_unit_line: "transformDirection (Vector3 0 0 1) (invert lineMatrix) = Vector3 0 0 1"
  by (simp add: transformDirection_def invert_lineMatrix Let_def normalize_def length3_def
      divideScalar_def multiplyScalar_def real_sqrt_divide)

subsection \<open>Displacements\<close>

lemma distanceTo_self [simp]: "distanceTo v v = 0"
  by (simp add: distanceTo_def distanceToSquared_def)

lemma factor_mono:
  assumes "0 \<le> (di::real)" and "di < dj" and "dj < r"
  shows "\<bar>k * (1 - dj / r) * 0.01\<bar> \<le> \<bar>k * (1 - di / r) * 0.01\<bar>"
proof -
  have r: "0 < r" using assms by linarith
  have fj: "0 \<le> 1 - dj / r" using assms r by (simp add: field_simps)
  have le: "1 - dj / r \<le> 1 - di / r" using assms r by (simp add: field_simps)
  have fi: "0 \<le> 1 - di / r" using fj le by simp
  have "\<bar>k * (1 - dj / r) * 0.01\<bar> = \<bar>k\<bar> * (1 - dj / r) * 0.01"
    using fj by (simp add: abs_mult)
  also have "\<dots> \<le> \<bar>k\<bar> * (1 - di / r) * 0.01"
    using le by (simp add: mult_left_mono)
  also have "\<dots> = \<bar>k * (1 - di / r) * 0.01\<bar>"
    using fi by (simp add: abs_mult)
  finally show ?thesis .
qed

lemma displacement_eq:
  assumes "meshRef s = Some m" and "geometry m = Some g" and "i < length (position g)"
    and "localPointOf m point = Some lp"
  shows "displacement s point nrm i =
         distanceTo (sculptVertex s (invert (matrixWorld m)) lp nrm (position g ! i))
                    (position g ! i)"
  using assms by (simp add: displacement_def positionsOf_sculptMesh) (simp add: positionsOf_def)

lemma displacement_outside:
  assumes "meshRef s = Some m" and "geometry m = Some g" and "i < length (position g)"
    and "brushSize s \<le> distanceTo (position g ! i) lp"
    and "localPointOf m point = Some lp"
  shows "displacement s point nrm i = 0"
  using assms by (simp add: displacement_eq sculptVertex_def)

lemma displacement_lerp:
  assumes "activeTool s = SMOOTH \<or> activeTool s = PINCH"
    and "meshRef s = Some m" and "geometry m = Some g" and "i < length (position g)"
    and "distanceTo (position g ! i) lp < brushSize s"
    and "localPointOf m point = Some lp"
  shows "displacement s point nrm i =
         distanceTo (position g ! i) lp
         * \<bar>brushStrength s * (1 - distanceTo (position g ! i) lp / brushSize s) * 0.01\<bar>"
  using assms
  by (auto simp: displacement_eq sculptVertex_def applyTool_SMOOTH applyTool_PINCH distanceTo_lerp_from)

lemma displacement_sculpt:
  assumes "activeTool s = SCULPT"
    and "meshRef s = Some m" and "geometry m = Some g" and "i < length (position g)"
    and "distanceTo (position g ! i) lp < brushSize s"
    and "localPointOf m point = Some lp"
  shows "displacement s point (Some n) i =
         \<bar>brushStrength s * (1 - distanceTo (position g ! i) lp / brushSize s) * 0.01\<bar>
         * length3 (transformDirection n (invert (matrixWorld m)))"
    and "displacement s point None i = 0"
  using assms
  by (simp_all add: displacement_eq sculptVertex_def applyTool_SCULPT distanceTo_addScaledVector)

lemma dot_lerp: "dot (sub (lerp v p k) p) (sub v p) = (1 - k) * distanceToSquared v p"
  by (simp add: dot_def sub_def lerp_def distanceToSquared_def Let_def algebra_simps)

lemma length3_nonneg: "0 \<le> length3 v"
  by (simp add: length3_def)

lemma localPoint_lineMesh: "localPointOf lineMesh lineContact = Some (Vector3 0 0 0)"
  by (simp add: lineMesh_def localPoint_line)

lemma line_sculpt3:
  "positionsOf (sculptMesh lineContact nrm (lineScene t 3 k)) =
     [applyTool (lineScene t 3 k) (invert lineMatrix) (Vector3 0 0 0) nrm 1 (Vector3 0 0 0),
      applyTool (lineScene t 3 k) (invert lineMatrix) (Vector3 0 0 0) nrm (5/6) (Vector3 (1/2) 0 0),
      applyTool (lineScene t 3 k) (invert lineMatrix) (Vector3 0 0 0) nrm (1/3) (Vector3 2 0 0)]"
  by (simp add: positionsOf_sculptMesh[OF lineScene_mesh] localPoint_line sculptVertex_def
      line_distances)

lemma line_smooth3:
  "displacement (lineScene SMOOTH 3 5) lineContact None (Suc 0) = 1/48"
  "displacement (lineScene SMOOTH 3 5) lineContact None 2 = 1/30"
  by (simp_all add: displacement_def line_sculpt3 positionsOf_lineScene applyTool_SMOOTH lerp_def
      distanceTo_x_axis)

lemma line_sculpt3_displacement:
  "displacement (lineScene SCULPT 3 5) lineContact (Some (Vector3 0 0 1)) (Suc 0) = 1/24"
  "displacement (lineScene SCULPT 3 5) lineContact (Some (Vector3 0 0 1)) 2 = 1/60"
  by (simp_all add: displacement_def line_sculpt3 positionsOf_lineScene applyTool_SCULPT
      transformDirection_unit_line addScaledVector_def distanceTo_z_axis)

subsection \<open>Loading, sculpting and resetting keep the snapshot\<close>

lemma length_setXYZ [simp]: "length (setXYZ attr i v) = length attr"
  by (simp add: setXYZ_def split: option.split)

lemma length_indexedTriangle [simp]: "length (indexedTriangle pos vA vB vC nrm) = length nrm"
  by (simp add: indexedTriangle_def Let_def)

lemma length_indexedNormals [simp]: "length (indexedNormals pos ix nrm) = length nrm"
  by (induction pos ix nrm rule: indexedNormals.induct) simp_all

lemma length_soupNormals [simp]: "length (soupNormals pos i nrm) = length nrm"
proof (induction pos i nrm rule: soupNormals.induct)
  case (1 pos i nrm)
  show ?case
  proof (cases "i < length pos")
    case True
    then show ?thesis
      using "1.IH"[OF True refl] by (subst soupNormals.simps) (simp add: Let_def)
  next
    case False
    then show ?thesis by (subst soupNormals.simps) simp
  qed
qed

lemma length_vertexNormals [simp]: "length (vertexNormals pos idx n) = n"
  by (simp add: vertexNormals_def normalizeNormals_def Let_def split: option.split)

lemma normalCount_computeVertexNormals [simp]:
  "normalCount (computeVertexNormals g) = normalCount g"
  by (simp add: normalCount_def computeVertexNormals_def)

lemma normalCount_position [simp]:
  "normal g \<noteq> None \<Longrightarrow> normalCount (g\<lparr>position := ps\<rparr>) = normalCount g"
  by (auto simp: normalCount_def)

lemma computeVertexNormals_again:
  "computeVertexNormals ((computeVertexNormals g)\<lparr>position := ps\<rparr>)
     = (computeVertexNormals g)\<lparr>position := ps,
          normal := Some (vertexNormals ps (index g) (normalCount g))\<rparr>"
  by (simp add: computeVertexNormals_def normalCount_def)

lemma arraySet_same_length:
  "length source = length target \<Longrightarrow> arraySet target source = Inr source"
  by (simp add: arraySet_def)

lemma length_sculptLoop [simp]: "length (sculptLoop s im lp nrm 0 ps) = length ps"
  by (simp add: sculptLoop_map)

lemma processLoadedModel_Inr:
  assumes "mainMeshOf obj = Some mm" and "loadedGeometry mm = Some (WithPosition g)"
  shows "processLoadedModel obj s
         = Inr (s\<lparr>originalVertices := Some (position g),
                   meshRef := Some \<lparr>geometry = Some (computeVertexNormals g),
                                     matrixWorld = loadedMatrixWorld mm\<rparr>,
                   isLoading := False\<rparr>)"
  using assms by (simp add: processLoadedModel_def Let_def)

lemma loadedFrom_processLoadedModel:
  assumes "processLoadedModel obj s = Inr loaded"
    and "mainMeshOf obj = Some mm" and "loadedGeometry mm = Some (WithPosition g)"
  shows "loadedFrom g loaded"
  using assms(1) unfolding processLoadedModel_Inr[OF assms(2,3)] loadedFrom_def
  by (auto simp: computeVertexNormals_def)

lemma loadedFrom_fields [simp]:
  "loadedFrom g (s\<lparr>lastMousePosition := v\<rparr>) = loadedFrom g s"
  "loadedFrom g (s\<lparr>listenerLastMousePosition := v\<rparr>) = loadedFrom g s"
  "loadedFrom g (s\<lparr>mouse := v\<rparr>) = loadedFrom g s"
  "loadedFrom g (s\<lparr>brushPosition := p\<rparr>) = loadedFrom g s"
  "loadedFrom g (s\<lparr>isModifying := b\<rparr>) = loadedFrom g s"
  "loadedFrom g (s\<lparr>activeTool := t\<rparr>) = loadedFrom g s"
  "loadedFrom g (s\<lparr>brushSize := r\<rparr>) = loadedFrom g s"
  "loadedFrom g (s\<lparr>brushStrength := k\<rparr>) = loadedFrom g s"
  by (simp_all add: loadedFrom_def)

lemma loadedFrom_rerender [simp]: "loadedFrom g (rerender before after) = loadedFrom g after"
  by (simp add: rerender_def)

lemma loadedFrom_sculptMesh:
  assumes "loadedFrom g s"
  shows "loadedFrom g (sculptMesh point nrm s)"
proof -
  from assms obtain m gg where m: "meshRef s = Some m" and gg: "geometry m = Some gg"
    and ix: "index gg = index g"
    and nr: "normal gg = Some (vertexNormals (position gg) (index g) (normalCount g))"
    and len: "length (position gg) = length (position g)"
    and ov: "originalVertices s = Some (position g)"
    unfolding loadedFrom_def by blast
  show ?thesis
    unfolding loadedFrom_def using m gg ix nr len ov
    by (simp add: sculptMesh_def Let_def computeVertexNormals_def normalCount_def
        split: option.split)
qed

lemma loadedFrom_resetMesh:
  assumes "loadedFrom g s"
  shows "\<exists>s'. resetMesh s = Inr s' \<and> loadedFrom g s' \<and> positionsOf s' = position g
            \<and> normalsOf s' = Some (vertexNormals (position g) (index g) (normalCount g))
            \<and> originalVertices s' = Some (position g)"
proof -
  from assms obtain m gg where m: "meshRef s = Some m" and gg: "geometry m = Some gg"
    and ix: "index gg = index g"
    and nr: "normal gg = Some (vertexNormals (position gg) (index g) (normalCount g))"
    and len: "length (position gg) = length (position g)"
    and ov: "originalVertices s = Some (position g)"
    unfolding loadedFrom_def by blast
  let ?s' = "s\<lparr>meshRef := Some (m\<lparr>geometry :=
               Some (computeVertexNormals (gg\<lparr>position := position g\<rparr>))\<rparr>)\<rparr>"
  have r: "resetMesh s = Inr ?s'"
    using m gg len ov by (simp add: resetMesh_def arraySet_same_length)
  have nc: "normalCount (gg\<lparr>position := position g\<rparr>) = normalCount g"
    using nr by (simp add: normalCount_def)
  have "loadedFrom g ?s'"
    unfolding loadedFrom_def using ix ov nc by (simp add: computeVertexNormals_def)
  moreover have "positionsOf ?s' = position g"
    by (simp add: positionsOf_def)
  moreover have "normalsOf ?s' = Some (vertexNormals (position g) (index g) (normalCount g))"
    using ix nc by (simp add: normalsOf_def computeVertexNormals_def)
  moreover have "originalVertices ?s' = Some (position g)"
    using ov by simp
  ultimately show ?thesis using r by blast
qed

lemma loadedFrom_handlePointerMove:
  assumes "loadedFrom g s"
  shows "loadedFrom g (handlePointerMove event rect intersects s)"
proof (cases intersects)
  case Nil
  then show ?thesis using assms by (simp add: handlePointerMove_def Let_def)
next
  case (Cons hit rest)
  let ?s2 = "s\<lparr>mouse := Vector2 (((clientX event - left rect) / width rect) * 2 - 1)
                                  (- ((clientY event - top rect) / height rect) * 2 + 1),
               brushPosition := fst hit\<rparr>"
  have l2: "loadedFrom g ?s2" using assms by simp
  show ?thesis
    using Cons l2 loadedFrom_sculptMesh[OF l2]
    by (simp add: handlePointerMove_def Let_def)
qed

lemma loadedFrom_step:
  assumes "loadedFrom g s"
  shows "loadedFrom g (step s e)"
proof (cases e)
  case (PointerDown event)
  then show ?thesis using assms by (simp add: handlePointerDown_def split: option.split)
next
  case (PointerMove event rect intersects)
  have "loadedFrom g (listenerView s)"
    using assms by (simp add: listenerView_def)
  then have "loadedFrom g (listenerPointerMove event rect intersects s)"
    by (simp add: listenerPointerMove_def Let_def loadedFrom_handlePointerMove)
  then show ?thesis using PointerMove assms by (simp split: option.split)
next
  case PointerUp
  then show ?thesis using assms by (simp add: handlePointerUp_def split: option.split)
next
  case (SetTool t)
  then show ?thesis using assms by simp
next
  case (SetBrushSize r)
  then show ?thesis using assms by simp
next
  case (SetBrushStrength k)
  then show ?thesis using assms by simp
next
  case (UpdateMatrixWorld w)
  then show ?thesis using assms by (auto simp: loadedFrom_def)
next
  case Reset
  from loadedFrom_resetMesh[OF assms] show ?thesis using Reset by auto
qed

lemma loadedFrom_run:
  "loadedFrom g s \<Longrightarrow> loadedFrom g (run s events)"
  unfolding run_def by (induction events arbitrary: s) (simp_all add: loadedFrom_step)

lemma resetMesh_idem: "resetMesh s = Inr s' \<Longrightarrow> resetMesh s' = Inr s'"
proof -
  assume r: "resetMesh s = Inr s'"
  show ?thesis
  proof (cases "meshRef s")
    case None
    then show ?thesis using r by (simp add: resetMesh_def)
  next
    case (Some m)
    note m = Some
    show ?thesis
    proof (cases "geometry m")
      case None
      then show ?thesis using r m by (simp add: resetMesh_def)
    next
      case (Some g)
      note g = Some
      show ?thesis
      proof (cases "originalVertices s")
        case None
        then show ?thesis using r m g by (simp add: resetMesh_def)
      next
        case (Some ov)
        show ?thesis
        proof (cases "length ov > length (position g)")
          case True
          then show ?thesis using r m g Some by (simp add: resetMesh_def arraySet_def)
        next
          case False
          let ?arr = "ov @ drop (length ov) (position g)"
          have s': "s' = s\<lparr>meshRef := Some (m\<lparr>geometry :=
                                  Some (computeVertexNormals (g\<lparr>position := ?arr\<rparr>))\<rparr>)\<rparr>"
            using r m g Some False by (simp add: resetMesh_def arraySet_def)
          have "arraySet ?arr ov = Inr ?arr"
            by (simp add: arraySet_def)
          then show ?thesis
            unfolding s' using Some
            by (simp add: resetMesh_def computeVertexNormals_def normalCount_def)
        qed
      qed
    qed
  qed
qed

subsection \<open>The Move tool\<close>

lemma sculptVertex_MOVE_normal:
  "activeTool s = MOVE \<Longrightarrow> sculptVertex s im lp nrm = sculptVertex s im lp nrm'"
  by (rule ext) (simp add: sculptVertex_def applyTool_MOVE)

lemma sculptVertex_MOVE_still:
  "activeTool s = MOVE \<Longrightarrow> mouse s = lastMousePosition s \<Longrightarrow> sculptVertex s im lp nrm v = v"
  by (simp add: sculptVertex_def applyTool_MOVE)

lemma positionsOf_sculptMesh_fixed:
  assumes "\<And>im lp v. sculptVertex s im lp nrm v = v"
  shows "positionsOf (sculptMesh point nrm s) = positionsOf s"
proof (cases "meshRef s")
  case None
  then show ?thesis by (simp add: sculptMesh_def)
next
  case (Some m)
  show ?thesis
  proof (cases "geometry m")
    case None
    then show ?thesis using Some by (simp add: sculptMesh_def)
  next
    case (Some g)
    have p: "positionsOf s = position g"
      using \<open>meshRef s = Some m\<close> Some by (simp add: positionsOf_def)
    show ?thesis
    proof (cases "localPointOf m point")
      case None
      then show ?thesis
        using positionsOf_sculptMesh_None[OF \<open>meshRef s = Some m\<close> Some] p by simp
    next
      case (Some lp)
      have "map (sculptVertex s (invert (matrixWorld m)) lp nrm) (position g) = position g"
        by (simp add: assms map_idI)
      then show ?thesis
        using positionsOf_sculptMesh[OF \<open>meshRef s = Some m\<close> \<open>geometry m = Some g\<close> Some] p
        by simp
    qed
  qed
qed

lemma positionsOf_sculptMesh_MOVE_still:
  assumes "activeTool s = MOVE" and "mouse s = lastMousePosition s"
  shows "positionsOf (sculptMesh point nrm s) = positionsOf s"
  by (rule positionsOf_sculptMesh_fixed) (rule sculptVertex_MOVE_still[OF assms])

lemma lastMousePosition_sculptMesh:
  "meshRef s = Some m \<Longrightarrow> geometry m = Some g \<Longrightarrow> lastMousePosition (sculptMesh point nrm s) = mouse s"
  by (simp add: sculptMesh_def Let_def)

lemma positionsOf_handlePointerDown [simp]: "positionsOf (handlePointerDown event s) = positionsOf s"
  by (simp add: handlePointerDown_def positionsOf_def)

subsection \<open>Loading and normals\<close>




lemma mainMeshOf_lineObject:
  "mainMeshOf lineObject
     = Some \<lparr>loadedGeometry = Some (WithPosition lineGeometry), loadedMatrixWorld = lineMatrix\<rparr>"
  by (simp add: mainMeshOf_def lineObject_def List.map_filter_def)



lemma sqrt_nine: "sqrt 9 = 3"
  using real_sqrt_abs[of 3] by simp

lemma invert_identity: "invert identity = identity"
  by (simp add: invert_def identity_def Let_def)

lemma triScene_mesh:
  "meshRef triScene = Some \<lparr>geometry = Some (computeVertexNormals triGeometry), matrixWorld = identity\<rparr>"
  by (simp add: triScene_def loadModel_def beginLoad_def processLoadedModel_def mainMeshOf_def
      triObject_def List.map_filter_def initialScene_def)

lemma triScene_props [simp]:
  "brushSize triScene = 1" "brushStrength triScene = 200" "activeTool triScene = SCULPT"
  by (simp_all add: triScene_def loadModel_def beginLoad_def processLoadedModel_def mainMeshOf_def
      triObject_def List.map_filter_def initialScene_def)

lemma tri_normals_before:
  "vertexNormals [Vector3 0 0 0, Vector3 1 0 0, Vector3 0 1 0] None (Suc (Suc (Suc 0)))
     = [Some (Vector3 0 0 1), Some (Vector3 0 0 1), Some (Vector3 0 0 1)]"
  by (simp add: vertexNormals_def soupNormals.simps faceNormal_def fromBufferAttribute_def
      cross_def sub_def normalizeNormals_def normalize_def length3_def divideScalar_def
      multiplyScalar_def Let_def)

lemma tri_normals_after:
  "vertexNormals [Vector3 0 0 2, Vector3 1 0 0, Vector3 0 1 0] None (Suc (Suc (Suc 0)))
     = [Some (Vector3 (2/3) (2/3) (1/3)), Some (Vector3 (2/3) (2/3) (1/3)),
        Some (Vector3 (2/3) (2/3) (1/3))]"
  by (simp add: vertexNormals_def soupNormals.simps faceNormal_def fromBufferAttribute_def
      cross_def sub_def normalizeNormals_def normalize_def length3_def divideScalar_def
      multiplyScalar_def Let_def sqrt_nine)

lemma normalsOf_triScene:
  "normalsOf triScene = Some [Some (Vector3 0 0 1), Some (Vector3 0 0 1), Some (Vector3 0 0 1)]"
  by (simp add: normalsOf_def triScene_mesh computeVertexNormals_def normalCount_def
      triGeometry_def tri_normals_before)

lemma normalCount_triGeometry: "normalCount triGeometry = Suc (Suc (Suc 0))"
  by (simp add: normalCount_def triGeometry_def)

lemma index_triGeometry: "index triGeometry = None"
  by (simp add: triGeometry_def)

lemma localPoint_tri:
  "localPointOf \<lparr>geometry = gg, matrixWorld = identity\<rparr> (Vector3 0 0 0) = Some (Vector3 0 0 0)"
  by (simp add: localPointOf_def invert_identity) (simp add: identity_def applyMatrix4_def)

lemma tri_sculpt:
  "positionsOf (sculptMesh (Vector3 0 0 0) (Some (Vector3 0 0 1)) triScene)
     = [Vector3 0 0 2, Vector3 1 0 0, Vector3 0 1 0]"
  by (simp add: positionsOf_sculptMesh[OF triScene_mesh _ localPoint_tri] invert_identity
      sculptVertex_def applyTool_SCULPT triGeometry_def)
     (simp add: identity_def distanceTo_def distanceToSquared_def Let_def
      transformDirection_def normalize_def length3_def divideScalar_def multiplyScalar_def
      addScaledVector_def)

subsection \<open>A stroke with the Move tool\<close>

lemma sculptMesh_fields [simp]:
  "brushSize (sculptMesh p n s) = brushSize s"
  "brushStrength (sculptMesh p n s) = brushStrength s"
  "activeTool (sculptMesh p n s) = activeTool s"
  "isModifying (sculptMesh p n s) = isModifying s"
  "mouse (sculptMesh p n s) = mouse s"
  "originalVertices (sculptMesh p n s) = originalVertices s"
  "listenerLastMousePosition (sculptMesh p n s) = listenerLastMousePosition s"
  by (simp_all add: sculptMesh_def Let_def split: option.split)

lemma meshRef_sculptMesh:
  assumes "meshRef s = Some m" and "geometry m = Some g"
  shows "meshRef (sculptMesh p n s)
         = Some (m\<lparr>geometry := Some (computeVertexNormals
                   (g\<lparr>position := positionsOf (sculptMesh p n s)\<rparr>))\<rparr>)"
  using assms by (simp add: sculptMesh_def Let_def positionsOf_def split: option.split)

text \<open>
  One call with the Move tool: a vertex inside the radius moves in the local x and y
  directions of the mesh by the difference between \<open>mouse\<close> and the \<open>lastMousePosition\<close> the
  call reads (x as it is, y with the opposite sign; the world matrix plays no part in
  it), scaled by \<open>brushStrength * falloff * 0.02\<close>, whatever the normal. The call stores the
  cursor. The pointer-down handler stores the cursor and moves no vertex.
\<close>

lemma move_single_call:
  assumes "activeTool s = MOVE" and "meshRef s = Some m" and "geometry m = Some g"
    and "i < length (position g)"
    and "distanceTo (position g ! i) lp < brushSize s"
    and "localPointOf m point = Some lp"
  shows "positionsOf (sculptMesh point nrm s) ! i
           = Vector3
               (vx (position g ! i) + (x2 (mouse s) - x2 (lastMousePosition s))
                  * (brushStrength s * (1 - distanceTo (position g ! i) lp / brushSize s) * 0.02))
               (vy (position g ! i) - (y2 (mouse s) - y2 (lastMousePosition s))
                  * (brushStrength s * (1 - distanceTo (position g ! i) lp / brushSize s) * 0.02))
               (vz (position g ! i))
       \<and> positionsOf (sculptMesh point nrm s) = positionsOf (sculptMesh point nrm' s)
       \<and> lastMousePosition (sculptMesh point nrm s) = mouse s
       \<and> (mouse s = lastMousePosition s \<longrightarrow> positionsOf (sculptMesh point nrm s) = positionsOf s)
       \<and> positionsOf (handlePointerDown event s) = positionsOf s
       \<and> (button event = 0 \<longrightarrow>
            isModifying (handlePointerDown event s)
          \<and> lastMousePosition (handlePointerDown event s) = mouse s
          \<and> positionsOf (sculptMesh point nrm (handlePointerDown event s)) = positionsOf s)"
proof -
  have a: "positionsOf (sculptMesh point nrm s) ! i
           = Vector3
               (vx (position g ! i) + (x2 (mouse s) - x2 (lastMousePosition s))
                  * (brushStrength s * (1 - distanceTo (position g ! i) lp / brushSize s) * 0.02))
               (vy (position g ! i) - (y2 (mouse s) - y2 (lastMousePosition s))
                  * (brushStrength s * (1 - distanceTo (position g ! i) lp / brushSize s) * 0.02))
               (vz (position g ! i))"
    using assms by (simp add: positionsOf_sculptMesh sculptVertex_def applyTool_MOVE)
  have b: "positionsOf (sculptMesh point nrm s) = positionsOf (sculptMesh point nrm' s)"
    by (simp only: positionsOf_sculptMesh[OF assms(2,3,6)]
        sculptVertex_MOVE_normal[OF assms(1), of _ _ nrm nrm'])
  have c: "lastMousePosition (sculptMesh point nrm s) = mouse s"
    by (rule lastMousePosition_sculptMesh[OF assms(2,3)])
  have d: "positionsOf (sculptMesh point nrm s) = positionsOf s" if "mouse s = lastMousePosition s"
    by (rule positionsOf_sculptMesh_MOVE_still[OF assms(1) that])
  have e: "isModifying (handlePointerDown event s)
          \<and> lastMousePosition (handlePointerDown event s) = mouse s
          \<and> positionsOf (sculptMesh point nrm (handlePointerDown event s)) = positionsOf s"
    if "button event = 0"
  proof -
    have t: "activeTool (handlePointerDown event s) = MOVE"
      using assms(1) by (simp add: handlePointerDown_def)
    have l: "lastMousePosition (handlePointerDown event s) = mouse s"
      using that by (simp add: handlePointerDown_def)
    have mm: "mouse (handlePointerDown event s) = mouse s"
      by (simp add: handlePointerDown_def)
    have "positionsOf (sculptMesh point nrm (handlePointerDown event s))
            = positionsOf (handlePointerDown event s)"
      by (rule positionsOf_sculptMesh_MOVE_still[OF t]) (simp add: l mm)
    then have "positionsOf (sculptMesh point nrm (handlePointerDown event s)) = positionsOf s"
      by (simp only: positionsOf_handlePointerDown)
    moreover have "isModifying (handlePointerDown event s)"
      using that by (simp add: handlePointerDown_def)
    ultimately show ?thesis using l by simp
  qed
  from a b c d e show ?thesis by simp
qed

lemma move_single_call_example:
  "positionsOf (sculptMesh lineContact None
      ((lineScene MOVE 1 5)\<lparr>mouse := Vector2 (1/10) (1/5)\<rparr>)) ! 1
     = Vector3 (101/200) (-1/100) 0"
  using move_single_call [where s = "(lineScene MOVE 1 5)\<lparr>mouse := Vector2 (1/10) (1/5)\<rparr>"
      and m = "\<lparr>geometry = Some (computeVertexNormals lineGeometry), matrixWorld = lineMatrix\<rparr>"
      and g = "computeVertexNormals lineGeometry" and i = 1 and point = lineContact
      and lp = "Vector3 0 0 0" and nrm = None and nrm' = None
      and event = "\<lparr>button = 0, clientX = 1, clientY = 1\<rparr>"]
  by (simp add: lineScene_mesh localPoint_line line_distances)

text \<open>
  What \<^verbatim>\<open>handlePointerMove\<close> leaves in \<open>lastMousePosition\<close>: the cursor where it reaches
  the end of \<open>sculptMesh\<close>, the value it was given otherwise.
\<close>

lemma lastMousePosition_handlePointerMove:
  "lastMousePosition (handlePointerMove event rect intersects s)
     = (if storesCursor intersects s
        then mouse (handlePointerMove event rect intersects s)
        else lastMousePosition s)"
  by (cases intersects)
     (auto simp: handlePointerMove_def storesCursor_def Let_def sculptMesh_def
           split: option.splits)

subsection \<open>Normals of an indexed plane\<close>

text \<open>
  The two triangles of the square \<open>[-1, 1]\<^sup>2\<close> in the plane \<open>z = 0\<close>, with an index: every
  vertex normal is \<open>(0, 0, 1)\<close>. With an index entry that points outside the position
  attribute, the vertices of that triangle have a NaN normal.
\<close>

lemma plane_normals:
  "vertexNormals [Vector3 (-1) (-1) 0, Vector3 1 (-1) 0, Vector3 1 1 0, Vector3 (-1) 1 0]
     (Some [0, 1, 2, 0, 2, 3]) 4
   = [Some (Vector3 0 0 1), Some (Vector3 0 0 1), Some (Vector3 0 0 1), Some (Vector3 0 0 1)]"
  by (simp add: vertexNormals_def indexedTriangle_def faceNormal_def fromBufferAttribute_def
      getNormal_def setXYZ_def addNormal_def add_def cross_def sub_def normalizeNormals_def
      normalize_def length3_def divideScalar_def multiplyScalar_def Let_def
      eval_nat_numeral real_sqrt_abs2[of 8, simplified] real_sqrt_abs2[of 4, simplified])

lemma plane_normals_bad_index:
  "vertexNormals [Vector3 (-1) (-1) 0, Vector3 1 (-1) 0, Vector3 1 1 0, Vector3 (-1) 1 0]
     (Some [0, 1, 2, 0, 2, 7]) 4
   = [None, Some (Vector3 0 0 1), None, Some (Vector3 0 0 0)]"
  by (simp add: vertexNormals_def indexedTriangle_def faceNormal_def fromBufferAttribute_def
      getNormal_def setXYZ_def addNormal_def add_def cross_def sub_def normalizeNormals_def
      normalize_def length3_def divideScalar_def multiplyScalar_def Let_def
      eval_nat_numeral real_sqrt_abs2[of 4, simplified])

subsection \<open>The inverse on an example\<close>

lemma invert_example:
  "multiply (invert (Matrix4 2 1 0 3  0 3 1 1  1 0 4 2  5 6 7 1))
            (Matrix4 2 1 0 3  0 3 1 1  1 0 4 2  5 6 7 1) = identity"
  "multiply (Matrix4 2 1 0 3  0 3 1 1  1 0 4 2  5 6 7 1)
            (invert (Matrix4 2 1 0 3  0 3 1 1  1 0 4 2  5 6 7 1)) = identity"
  "invert zeroMatrix = zeroMatrix"
  by (simp_all add: invert_def multiply_def identity_def zeroMatrix_def Let_def)

section \<open>The brush\<close>

text \<open>
  C1 (Sculpt). With the Sculpt tool and a normal \<open>n\<close> supplied, every vertex inside the brush
  radius moves by one and the same vector, the normal of the contact point, scaled by
  \<open>brushStrength * falloff * 0.01\<close>. That vector is \<open>n\<close> taken through the upper 3x3 block of
  the inverse world matrix and normalized: the translation column of the matrix has no
  influence on it, and it has length one (or is the zero vector, when the block maps \<open>n\<close> to
  zero). It does not depend on the vertex.
\<close>

theorem sculpt_contact_normal:
  assumes "activeTool s = SCULPT" and "meshRef s = Some m" and "geometry m = Some g"
    and "i < length (position g)"
    and "distanceTo (position g ! i) lp < brushSize s"
    and "localPointOf m point = Some lp"
  shows "positionsOf (sculptMesh point (Some n) s) ! i
           = addScaledVector (position g ! i) (transformDirection n (invert (matrixWorld m)))
               (brushStrength s * (1 - distanceTo (position g ! i) lp / brushSize s) * 0.01)
         \<and> transformDirection n (invert (matrixWorld m))
           = normalize (Vector3
               (e0 (invert (matrixWorld m)) * vx n + e4 (invert (matrixWorld m)) * vy n + e8 (invert (matrixWorld m)) * vz n)
               (e1 (invert (matrixWorld m)) * vx n + e5 (invert (matrixWorld m)) * vy n + e9 (invert (matrixWorld m)) * vz n)
               (e2 (invert (matrixWorld m)) * vx n + e6 (invert (matrixWorld m)) * vy n + e10 (invert (matrixWorld m)) * vz n))
         \<and> transformDirection n (setPosition (invert (matrixWorld m)) t)
           = transformDirection n (invert (matrixWorld m))
         \<and> (length3 (transformDirection n (invert (matrixWorld m))) = 1
            \<or> transformDirection n (invert (matrixWorld m)) = Vector3 0 0 0)"
proof -
  have "positionsOf (sculptMesh point (Some n) s) ! i
           = addScaledVector (position g ! i) (transformDirection n (invert (matrixWorld m)))
               (brushStrength s * (1 - distanceTo (position g ! i) lp / brushSize s) * 0.01)"
    using assms by (simp add: positionsOf_sculptMesh sculptVertex_def applyTool_SCULPT)
  moreover have "length3 (transformDirection n (invert (matrixWorld m))) = 1
            \<or> transformDirection n (invert (matrixWorld m)) = Vector3 0 0 0"
    unfolding transformDirection_def Let_def by (rule normalize_unit_or_zero)
  moreover have "transformDirection n (invert (matrixWorld m))
           = normalize (Vector3
               (e0 (invert (matrixWorld m)) * vx n + e4 (invert (matrixWorld m)) * vy n + e8 (invert (matrixWorld m)) * vz n)
               (e1 (invert (matrixWorld m)) * vx n + e5 (invert (matrixWorld m)) * vy n + e9 (invert (matrixWorld m)) * vz n)
               (e2 (invert (matrixWorld m)) * vx n + e6 (invert (matrixWorld m)) * vy n + e10 (invert (matrixWorld m)) * vz n))"
    by (simp add: transformDirection_def Let_def)
  ultimately show ?thesis
    by (simp only: transformDirection_setPosition simp_thms)
qed

theorem sculpt_contact_normal_witness:
  "positionsOf (sculptMesh lineContact (Some (Vector3 0 0 2)) (lineScene SCULPT 1 5)) ! 1
     = Vector3 (1/2) 0 (1/40)
   \<and> transformDirection (Vector3 0 0 2) (invert lineMatrix) = Vector3 0 0 1
   \<and> transformDirection (Vector3 0 0 2) (setPosition (invert lineMatrix) (Vector3 7 8 9)) = Vector3 0 0 1"
  using sculpt_contact_normal [where s = "lineScene SCULPT 1 5"
      and g = "computeVertexNormals lineGeometry" and i = 1 and point = lineContact and lp = "Vector3 0 0 0"
      and n = "Vector3 0 0 2" and t = "Vector3 7 8 9", OF _ lineScene_mesh]
  by (simp add: localPoint_line line_distances transformDirection_line addScaledVector_def)

text \<open>
  C2 (locality). Whatever the tool, the brush parameters and the normal, a call of
  \<open>sculptMesh\<close> leaves a vertex where it was when its distance to the contact point, taken
  in the local space of the mesh, is at least the brush radius (and when the contact point
  has no finite local coordinates at all).
\<close>

theorem locality:
  assumes "meshRef s = Some m" and "geometry m = Some g" and "i < length (position g)"
    and "case localPointOf m point of
           None \<Rightarrow> True
         | Some lp \<Rightarrow> brushSize s \<le> distanceTo (position g ! i) lp"
  shows "positionsOf (sculptMesh point nrm s) ! i = position g ! i"
proof (cases "localPointOf m point")
  case None
  then show ?thesis by (simp add: positionsOf_sculptMesh_None[OF assms(1,2)])
next
  case (Some lp)
  then show ?thesis
    using assms(3,4) by (simp add: positionsOf_sculptMesh[OF assms(1,2) Some] sculptVertex_def)
qed

theorem locality_witness:
  "positionsOf (sculptMesh lineContact (Some (Vector3 0 0 1)) (lineScene SCULPT 1 5)) ! 2
     = Vector3 2 0 0
   \<and> brushSize (lineScene SCULPT 1 5) \<le> distanceTo (Vector3 2 0 0) (Vector3 0 0 0)"
  using locality [where s = "lineScene SCULPT 1 5" and g = "computeVertexNormals lineGeometry"
      and i = 2 and point = lineContact and nrm = "Some (Vector3 0 0 1)", OF lineScene_mesh]
  by (simp add: localPoint_line line_distances)

text \<open>
  C3 (falloff), as amended. Let two vertices lie at the local distances \<open>d1 < d2 < radius\<close>
  from the contact point. With the Sculpt tool the nearer one moves at least as far as the
  other. With the Smooth and the Pinch tool a vertex at distance \<open>d\<close> moves by
  \<open>d * |brushStrength * falloff * 0.01|\<close>, so it is the displacement per unit of distance
  that is at least as large for the nearer vertex, not the displacement itself. A vertex
  at a distance of the radius or more does not move.
\<close>

theorem falloff_monotone:
  assumes "meshRef s = Some m" and "geometry m = Some g"
    and "i < length (position g)" and "j < length (position g)"
    and "distanceTo (position g ! i) lp
           < distanceTo (position g ! j) lp"
    and "distanceTo (position g ! j) lp < brushSize s"
    and "localPointOf m point = Some lp"
  shows "(activeTool s = SCULPT \<longrightarrow> displacement s point nrm j \<le> displacement s point nrm i)
       \<and> (activeTool s = SMOOTH \<or> activeTool s = PINCH \<longrightarrow>
            displacement s point nrm i
              = distanceTo (position g ! i) lp
                * \<bar>brushStrength s * (1 - distanceTo (position g ! i) lp / brushSize s) * 0.01\<bar>
          \<and> displacement s point nrm j
              = distanceTo (position g ! j) lp
                * \<bar>brushStrength s * (1 - distanceTo (position g ! j) lp / brushSize s) * 0.01\<bar>
          \<and> displacement s point nrm j * distanceTo (position g ! i) lp
              \<le> displacement s point nrm i * distanceTo (position g ! j) lp)
       \<and> (\<forall>k < length (position g).
            brushSize s \<le> distanceTo (position g ! k) lp
            \<longrightarrow> displacement s point nrm k = 0)"
proof -
  let ?di = "distanceTo (position g ! i) lp"
  let ?dj = "distanceTo (position g ! j) lp"
  let ?ki = "\<bar>brushStrength s * (1 - ?di / brushSize s) * 0.01\<bar>"
  let ?kj = "\<bar>brushStrength s * (1 - ?dj / brushSize s) * 0.01\<bar>"
  have di0: "0 \<le> ?di" and dj0: "0 \<le> ?dj" by (rule distanceTo_nonneg)+
  have ini: "?di < brushSize s" using assms(5,6) by simp
  have k: "?kj \<le> ?ki" using factor_mono[OF di0 assms(5,6)] .
  have sculpt: "displacement s point nrm j \<le> displacement s point nrm i" if t: "activeTool s = SCULPT"
  proof (cases nrm)
    case None
    then show ?thesis
      using displacement_sculpt(2)[OF t assms(1,2,3) ini assms(7)] displacement_sculpt(2)[OF t assms(1,2,4,6,7)]
      by simp
  next
    case (Some n)
    have "displacement s point (Some n) j = ?kj * length3 (transformDirection n (invert (matrixWorld m)))"
      by (rule displacement_sculpt(1)[OF t assms(1,2,4,6,7)])
    also have "\<dots> \<le> ?ki * length3 (transformDirection n (invert (matrixWorld m)))"
      by (rule mult_right_mono[OF k length3_nonneg])
    also have "\<dots> = displacement s point (Some n) i"
      by (rule displacement_sculpt(1)[OF t assms(1,2,3) ini assms(7), symmetric])
    finally show ?thesis using Some by simp
  qed
  have lerpc: "displacement s point nrm i = ?di * ?ki \<and> displacement s point nrm j = ?dj * ?kj
      \<and> displacement s point nrm j * ?di \<le> displacement s point nrm i * ?dj"
    if t: "activeTool s = SMOOTH \<or> activeTool s = PINCH"
  proof -
    have ei: "displacement s point nrm i = ?di * ?ki" by (rule displacement_lerp[OF t assms(1,2,3) ini assms(7)])
    have ej: "displacement s point nrm j = ?dj * ?kj" by (rule displacement_lerp[OF t assms(1,2,4,6,7)])
    have "?dj * ?kj * ?di \<le> ?dj * ?ki * ?di"
      using k di0 dj0 by (simp add: mult_left_mono mult_right_mono)
    then have h: "?dj * ?kj * ?di \<le> ?di * ?ki * ?dj" by (simp add: mult.commute mult.left_commute)
    show ?thesis by (simp only: ei ej h simp_thms)
  qed
  have out: "\<forall>k < length (position g).
            brushSize s \<le> distanceTo (position g ! k) lp
            \<longrightarrow> displacement s point nrm k = 0"
    using displacement_outside[OF assms(1,2) _ _ assms(7)] by blast
  from sculpt lerpc out show ?thesis by blast
qed

theorem falloff_monotone_witness:
  "displacement (lineScene SCULPT 3 5) lineContact (Some (Vector3 0 0 1)) 2
     \<le> displacement (lineScene SCULPT 3 5) lineContact (Some (Vector3 0 0 1)) 1
   \<and> displacement (lineScene SMOOTH 3 5) lineContact None 2 * (1/2)
     \<le> displacement (lineScene SMOOTH 3 5) lineContact None 1 * 2
   \<and> displacement (lineScene PINCH 1 5) lineContact None 2 = 0"
  using falloff_monotone [where s = "lineScene SCULPT 3 5" and g = "computeVertexNormals lineGeometry"
      and i = 1 and j = 2 and point = lineContact and lp = "Vector3 0 0 0" and nrm = "Some (Vector3 0 0 1)",
      OF lineScene_mesh]
    falloff_monotone [where s = "lineScene SMOOTH 3 5" and g = "computeVertexNormals lineGeometry"
      and i = 1 and j = 2 and point = lineContact and lp = "Vector3 0 0 0" and nrm = None, OF lineScene_mesh]
    falloff_monotone [where s = "lineScene PINCH 1 5" and g = "computeVertexNormals lineGeometry"
      and i = 0 and j = 1 and point = lineContact and lp = "Vector3 0 0 0" and nrm = None, OF lineScene_mesh]
  by (simp add: localPoint_line line_distances)

text \<open>
  The claim as stated fails for Smooth (and Pinch, which computes the same): with radius
  \<open>3\<close> the vertex at distance \<open>1/2\<close> moves by \<open>1/48\<close>, the vertex at distance \<open>2\<close> by \<open>1/30\<close>.
\<close>

theorem falloff_monotone_counterexample:
  "localPointOf lineMesh lineContact = Some (Vector3 0 0 0)
   \<and> distanceTo (positionsOf (lineScene SMOOTH 3 5) ! 1) (Vector3 0 0 0) = 1/2
   \<and> distanceTo (positionsOf (lineScene SMOOTH 3 5) ! 2) (Vector3 0 0 0) = 2
   \<and> brushSize (lineScene SMOOTH 3 5) = 3
   \<and> displacement (lineScene SMOOTH 3 5) lineContact None 1 = 1/48
   \<and> displacement (lineScene SMOOTH 3 5) lineContact None 2 = 1/30
   \<and> displacement (lineScene SMOOTH 3 5) lineContact None 1
       < displacement (lineScene SMOOTH 3 5) lineContact None 2"
  by (simp add: positionsOf_lineScene localPoint_lineMesh line_distances line_smooth3)

text \<open>
  C4 (Smooth), as amended. With the Smooth tool a vertex inside the radius becomes
  \<open>lerp(position, localPoint, brushStrength * falloff * 0.01)\<close>; the factor is used as it is,
  without clamping. For a strength between \<open>0\<close> and \<open>100\<close> the factor lies in \<open>[0, 1]\<close>, the
  vertex ends at \<open>(1 - factor)\<close> times its former distance from the contact point, on the
  same side of it.
\<close>

theorem smooth_lerp:
  assumes "activeTool s = SMOOTH" and "meshRef s = Some m" and "geometry m = Some g"
    and "i < length (position g)"
    and "distanceTo (position g ! i) lp < brushSize s"
    and "localPointOf m point = Some lp"
  shows "positionsOf (sculptMesh point nrm s) ! i
           = lerp (position g ! i) lp
               (brushStrength s * (1 - distanceTo (position g ! i) lp / brushSize s) * 0.01)
       \<and> (0 \<le> brushStrength s \<and> brushStrength s \<le> 100 \<longrightarrow>
            0 \<le> brushStrength s * (1 - distanceTo (position g ! i) lp / brushSize s) * 0.01
          \<and> brushStrength s * (1 - distanceTo (position g ! i) lp / brushSize s) * 0.01 \<le> 1
          \<and> distanceTo (positionsOf (sculptMesh point nrm s) ! i) lp
              = (1 - brushStrength s * (1 - distanceTo (position g ! i) lp / brushSize s) * 0.01)
                * distanceTo (position g ! i) lp
          \<and> distanceTo (positionsOf (sculptMesh point nrm s) ! i) lp
              \<le> distanceTo (position g ! i) lp
          \<and> 0 \<le> dot (sub (positionsOf (sculptMesh point nrm s) ! i) lp)
                     (sub (position g ! i) lp))"
proof -
  let ?v = "position g ! i" and ?p = lp
  let ?d = "distanceTo ?v ?p"
  let ?k = "brushStrength s * (1 - ?d / brushSize s) * 0.01"
  have new: "positionsOf (sculptMesh point nrm s) ! i = lerp ?v ?p ?k"
    using assms by (simp add: positionsOf_sculptMesh sculptVertex_def applyTool_SMOOTH)
  have d0: "0 \<le> ?d" by (rule distanceTo_nonneg)
  have r: "0 < brushSize s" using d0 assms(5) by linarith
  have f0: "0 \<le> 1 - ?d / brushSize s" using assms(5) r by (simp add: field_simps)
  have f1: "1 - ?d / brushSize s \<le> 1" using d0 r by (simp add: field_simps)
  have bounded: "0 \<le> ?k \<and> ?k \<le> 1
      \<and> distanceTo (lerp ?v ?p ?k) ?p = (1 - ?k) * ?d
      \<and> distanceTo (lerp ?v ?p ?k) ?p \<le> ?d
      \<and> 0 \<le> dot (sub (lerp ?v ?p ?k) ?p) (sub ?v ?p)"
    if lo: "0 \<le> brushStrength s" and hi: "brushStrength s \<le> 100"
  proof -
    have k0: "0 \<le> ?k" using lo f0 by simp
    have "brushStrength s * (1 - ?d / brushSize s) \<le> 100 * 1"
      by (rule mult_mono[OF hi f1]) (use f0 in simp_all)
    then have k1: "?k \<le> 1" by simp
    have dist: "distanceTo (lerp ?v ?p ?k) ?p = (1 - ?k) * ?d"
      using k1 by (simp add: distanceTo_lerp_to)
    have "(1 - ?k) * ?d \<le> 1 * ?d"
      by (rule mult_right_mono) (use k0 d0 in simp_all)
    then have le: "distanceTo (lerp ?v ?p ?k) ?p \<le> ?d" using dist by simp
    have "dot (sub (lerp ?v ?p ?k) ?p) (sub ?v ?p) = (1 - ?k) * distanceToSquared ?v ?p"
      by (rule dot_lerp)
    moreover have "0 \<le> distanceToSquared ?v ?p"
      by (simp add: distanceToSquared_def Let_def)
    ultimately have "0 \<le> dot (sub (lerp ?v ?p ?k) ?p) (sub ?v ?p)"
      using k1 by simp
    with k0 k1 dist le show ?thesis by blast
  qed
  show ?thesis unfolding new using bounded by blast
qed

theorem smooth_lerp_witness:
  "positionsOf (sculptMesh lineContact None (lineScene SMOOTH 1 20)) ! 1 = Vector3 (9/20) 0 0
   \<and> lerp (Vector3 (1/2) 0 0) (Vector3 0 0 0) (20 * (1 - (1/2) / 1) * 0.01) = Vector3 (9/20) 0 0
   \<and> distanceTo (positionsOf (sculptMesh lineContact None (lineScene SMOOTH 1 20)) ! 1) (Vector3 0 0 0)
       \<le> 1/2"
  using smooth_lerp [where s = "lineScene SMOOTH 1 20" and g = "computeVertexNormals lineGeometry"
      and i = 1 and point = lineContact and lp = "Vector3 0 0 0" and nrm = None, OF _ lineScene_mesh]
  by (simp add: localPoint_line line_distances line_sculpt applyTool_SMOOTH lerp_def
      distanceTo_x_axis)

text \<open>
  The claim as stated promises a clamped factor for every positive strength. With strength
  \<open>400\<close> the factor at the vertex at distance \<open>1/2\<close> (radius \<open>1\<close>) is \<open>2\<close>, and the vertex goes
  from \<open>x = 1/2\<close> through the contact point at the origin to \<open>x = -1/2\<close>.
\<close>

theorem smooth_lerp_counterexample:
  "0 < brushStrength (lineScene SMOOTH 1 400)
   \<and> localPointOf lineMesh lineContact = Some (Vector3 0 0 0)
   \<and> positionsOf (lineScene SMOOTH 1 400) ! 1 = Vector3 (1/2) 0 0
   \<and> positionsOf (sculptMesh lineContact None (lineScene SMOOTH 1 400)) ! 1 = Vector3 (-1/2) 0 0
   \<and> dot (sub (positionsOf (sculptMesh lineContact None (lineScene SMOOTH 1 400)) ! 1)
               (Vector3 0 0 0))
          (sub (positionsOf (lineScene SMOOTH 1 400) ! 1) (Vector3 0 0 0)) < 0"
  by (simp add: positionsOf_lineScene localPoint_lineMesh line_sculpt applyTool_SMOOTH lerp_def
      dot_def sub_def)

text \<open>
  C5 (no-op cases), as amended. A call of \<open>sculptMesh\<close> leaves every position as it was when
  the brush radius is not positive, when the brush strength is zero, or when the tool is
  Sculpt and no normal is supplied. The function has no failing path. (A negative strength
  is not a no-op: the counterexample below.)
\<close>

theorem noop_cases:
  assumes "brushSize s \<le> 0 \<or> brushStrength s = 0 \<or> (activeTool s = SCULPT \<and> nrm = None)"
  shows "positionsOf (sculptMesh point nrm s) = positionsOf s"
proof (cases "meshRef s")
  case None
  then show ?thesis by (simp add: sculptMesh_def)
next
  case (Some m)
  note m = Some
  show ?thesis
  proof (cases "geometry m")
    case None
    then show ?thesis using m by (simp add: sculptMesh_def)
  next
    case (Some g)
    have before: "positionsOf s = position g"
      using m Some by (simp add: positionsOf_def)
    show ?thesis
    proof (cases "localPointOf m point")
      case None
      then show ?thesis
        using positionsOf_sculptMesh_None[OF m Some] before by simp
    next
      case (Some lp)
      have "sculptVertex s (invert (matrixWorld m)) lp nrm v = v" for v
        by (rule sculptVertex_noop[OF assms])
      then have "map (sculptVertex s (invert (matrixWorld m)) lp nrm) (position g) = position g"
        by (simp add: map_idI)
      then show ?thesis
        using positionsOf_sculptMesh[OF m \<open>geometry m = Some g\<close> Some] before by simp
    qed
  qed
qed

theorem noop_cases_witness:
  "positionsOf (sculptMesh lineContact (Some (Vector3 0 0 1)) (lineScene SMOOTH 0 5))
     = [Vector3 0 0 0, Vector3 (1/2) 0 0, Vector3 2 0 0]
   \<and> positionsOf (sculptMesh lineContact (Some (Vector3 0 0 1)) (lineScene PINCH 1 0))
     = [Vector3 0 0 0, Vector3 (1/2) 0 0, Vector3 2 0 0]
   \<and> positionsOf (sculptMesh lineContact None (lineScene SCULPT 1 5))
     = [Vector3 0 0 0, Vector3 (1/2) 0 0, Vector3 2 0 0]"
  using noop_cases [where s = "lineScene SMOOTH 0 5" and nrm = "Some (Vector3 0 0 1)" and point = lineContact]
    noop_cases [where s = "lineScene PINCH 1 0" and nrm = "Some (Vector3 0 0 1)" and point = lineContact]
    noop_cases [where s = "lineScene SCULPT 1 5" and nrm = None and point = lineContact]
  by (simp add: positionsOf_lineScene)

text \<open>
  The claim as stated also promises a no-op for a negative strength. With the Sculpt tool
  and strength \<open>-100\<close> the two vertices inside the radius move against the normal.
\<close>

theorem noop_cases_counterexample:
  "brushStrength (lineScene SCULPT 1 (-100)) \<le> 0
   \<and> positionsOf (lineScene SCULPT 1 (-100)) = [Vector3 0 0 0, Vector3 (1/2) 0 0, Vector3 2 0 0]
   \<and> positionsOf (sculptMesh lineContact (Some (Vector3 0 0 1)) (lineScene SCULPT 1 (-100)))
     = [Vector3 0 0 (-1), Vector3 (1/2) 0 (-1/2), Vector3 2 0 0]"
  by (simp add: positionsOf_lineScene line_sculpt applyTool_SCULPT transformDirection_unit_line
      addScaledVector_def)

text \<open>
  C6 (Move). The claim has every sample of a stroke move the vertices by the motion of
  the cursor since the sample before, converted into the local axes of the mesh. The
  registered listener reads \<open>lastMousePosition\<close> as it was in the render after pointer down,
  so every sample measures from the cursor of pointer down. In the stroke below the
  cursor goes from \<open>(0, 0)\<close> to \<open>(1/10, 0)\<close> and stays: the first sample, at the cursor of
  pointer down, moves nothing; the sample that follows the motion moves the vertices;
  and so does the next one, although the cursor has not moved since and the call before
  has stored it. A sample at \<open>(1/10, 1/5)\<close> moves the vertices in the local x direction by
  the cursor's own difference, although the mesh is scaled by \<open>2\<close>, and in the local y
  direction against the cursor.
\<close>

theorem move_measures_from_pointer_down:
  "positionsOf (run (lineScene MOVE 1 5) strokeStart)
     = [Vector3 0 0 0, Vector3 (1/2) 0 0, Vector3 2 0 0]
   \<and> positionsOf (run (lineScene MOVE 1 5) (strokeStart @ [strokeSample]))
     = [Vector3 (1/100) 0 0, Vector3 (101/200) 0 0, Vector3 2 0 0]
   \<and> mouse (run (lineScene MOVE 1 5) (strokeStart @ [strokeSample])) = Vector2 (1/10) 0
   \<and> lastMousePosition (run (lineScene MOVE 1 5) (strokeStart @ [strokeSample])) = Vector2 (1/10) 0
   \<and> listenerLastMousePosition (run (lineScene MOVE 1 5) (strokeStart @ [strokeSample]))
     = Vector2 0 0
   \<and> mouse (run (lineScene MOVE 1 5) (strokeStart @ [strokeSample, strokeSample]))
     = Vector2 (1/10) 0
   \<and> positionsOf (run (lineScene MOVE 1 5) (strokeStart @ [strokeSample, strokeSample]))
     = [Vector3 (199/10000) 0 0, Vector3 (10199/20000) 0 0, Vector3 2 0 0]
   \<and> positionsOf (run (lineScene MOVE 1 5) (strokeStart @ [strokeSampleUp]))
     = [Vector3 (1/100) (-1/50) 0, Vector3 (101/200) (-1/100) 0, Vector3 2 0 0]"
  by (simp add: run_def strokeStart_def strokeSample_def strokeSampleUp_def pointerAt_def
      canvasRect_def lineScene_mesh rerender_def listenerPointerMove_def listenerView_def
      storesCursor_def handlePointerDown_def handlePointerMove_def Let_def
      meshRef_sculptMesh lastMousePosition_sculptMesh
      positionsOf_sculptMesh localPoint_line sculptVertex_def line_distances distanceTo_x_axis
      applyTool_MOVE positionsOf_lineScene)

section \<open>Reset, normals and loading\<close>

text \<open>
  C7 (reset). The load of a model whose first mesh has a geometry with positions
  succeeds; after it, and whatever the pointer, the props, the renderer and earlier
  resets have done since, \<open>resetMesh\<close> succeeds and leaves the positions captured at load,
  with the normals that belong to them; the snapshot itself is unchanged. A second
  \<open>resetMesh\<close> returns the very same state. In any state, a \<open>resetMesh\<close> that succeeds is
  idempotent.
\<close>

theorem reset_restores_snapshot:
  assumes "mainMeshOf obj = Some mm" and "loadedGeometry mm = Some (WithPosition g)"
  shows "(\<exists>loaded s'. processLoadedModel obj start = Inr loaded
            \<and> resetMesh (run loaded events) = Inr s'
            \<and> positionsOf s' = position g
            \<and> originalVertices s' = Some (position g)
            \<and> normalsOf s' = Some (vertexNormals (positionsOf s') (index g) (normalCount g))
            \<and> resetMesh s' = Inr s')
       \<and> (resetMesh t = Inr t' \<longrightarrow> resetMesh t' = Inr t')"
proof -
  obtain loaded where l: "processLoadedModel obj start = Inr loaded"
    using processLoadedModel_Inr[OF assms] by blast
  have "loadedFrom g (run loaded events)"
    by (rule loadedFrom_run[OF loadedFrom_processLoadedModel[OF l assms]])
  from loadedFrom_resetMesh[OF this] obtain s' where
    r: "resetMesh (run loaded events) = Inr s'"
    and p: "positionsOf s' = position g"
    and n: "normalsOf s' = Some (vertexNormals (position g) (index g) (normalCount g))"
    and ov: "originalVertices s' = Some (position g)"
    by blast
  have "resetMesh s' = Inr s'" by (rule resetMesh_idem[OF r])
  with l r p n ov show ?thesis using resetMesh_idem by auto
qed

theorem reset_restores_snapshot_witness:
  "(\<exists>loaded s'. processLoadedModel lineObject initialScene = Inr loaded
      \<and> resetMesh (run loaded
              [SetTool SMOOTH, SetBrushSize 1, PointerDown \<lparr>button = 0, clientX = 1, clientY = 1\<rparr>,
               PointerMove \<lparr>button = 0, clientX = 1, clientY = 1\<rparr>
                 \<lparr>left = 0, top = 0, width = 2, height = 2\<rparr> [(lineContact, None)]]) = Inr s'
      \<and> positionsOf s' = [Vector3 0 0 0, Vector3 (1/2) 0 0, Vector3 2 0 0]
      \<and> originalVertices s' = Some [Vector3 0 0 0, Vector3 (1/2) 0 0, Vector3 2 0 0]
      \<and> resetMesh s' = Inr s')
   \<and> positionsOf (run (loadModel lineObject initialScene)
              [SetTool SMOOTH, SetBrushSize 1, PointerDown \<lparr>button = 0, clientX = 1, clientY = 1\<rparr>,
               PointerMove \<lparr>button = 0, clientX = 1, clientY = 1\<rparr>
                 \<lparr>left = 0, top = 0, width = 2, height = 2\<rparr> [(lineContact, None)]])
       = [Vector3 0 0 0, Vector3 (39/80) 0 0, Vector3 2 0 0]"
proof -
  let ?evs = "[SetTool SMOOTH, SetBrushSize 1, PointerDown \<lparr>button = 0, clientX = 1, clientY = 1\<rparr>,
               PointerMove \<lparr>button = 0, clientX = 1, clientY = 1\<rparr>
                 \<lparr>left = 0, top = 0, width = 2, height = 2\<rparr> [(lineContact, None)]]"
  have "\<exists>loaded s'. processLoadedModel lineObject initialScene = Inr loaded
      \<and> resetMesh (run loaded ?evs) = Inr s'
      \<and> positionsOf s' = [Vector3 0 0 0, Vector3 (1/2) 0 0, Vector3 2 0 0]
      \<and> originalVertices s' = Some [Vector3 0 0 0, Vector3 (1/2) 0 0, Vector3 2 0 0]
      \<and> resetMesh s' = Inr s'"
    using reset_restores_snapshot [where obj = lineObject and start = initialScene and events = ?evs
        and g = lineGeometry, OF mainMeshOf_lineObject]
    by (fastforce simp: lineGeometry_def)
  moreover have "positionsOf (run (loadModel lineObject initialScene) ?evs)
       = [Vector3 0 0 0, Vector3 (39/80) 0 0, Vector3 2 0 0]"
    by (simp add: run_def rerender_def listenerPointerMove_def listenerView_def storesCursor_def
        handlePointerDown_def handlePointerMove_def Let_def
        loadModel_def beginLoad_def processLoadedModel_def mainMeshOf_lineObject initialScene_def
        positionsOf_sculptMesh localPoint_line sculptVertex_def line_distances
        applyTool_SMOOTH lerp_def)
  ultimately show ?thesis by blast
qed

text \<open>
  C8 (fresh normals). After a call of \<open>sculptMesh\<close> on a mesh with a geometry, the normals
  of the mesh are the ones \<open>computeVertexNormals\<close> derives from the positions the call has
  left and the index of the geometry, whether the call has moved a vertex or not.
\<close>

theorem normals_fresh:
  assumes "meshRef s = Some m" and "geometry m = Some g"
  shows "normalsOf (sculptMesh point nrm s)
         = Some (vertexNormals (positionsOf (sculptMesh point nrm s)) (index g) (normalCount g))"
proof -
  let ?ps = "case localPointOf m point of
               Some lp \<Rightarrow> sculptLoop s (invert (matrixWorld m)) lp nrm 0 (position g)
             | None \<Rightarrow> position g"
  have after: "meshRef (sculptMesh point nrm s)
      = Some (m\<lparr>geometry := Some (computeVertexNormals (g\<lparr>position := ?ps\<rparr>))\<rparr>)"
    using assms by (simp add: sculptMesh_def Let_def localPointOf_def)
  have len: "length ?ps = length (position g)"
    by (simp split: option.split)
  have count: "normalCount (g\<lparr>position := ?ps\<rparr>) = normalCount g"
    using len by (cases "normal g") (simp_all add: normalCount_def)
  have "normalsOf (sculptMesh point nrm s) = Some (vertexNormals ?ps (index g) (normalCount g))"
    using count by (simp add: normalsOf_def after computeVertexNormals_def)
  moreover have "positionsOf (sculptMesh point nrm s) = ?ps"
    by (simp add: positionsOf_def after)
  ultimately show ?thesis by simp
qed

theorem normals_fresh_witness:
  "normalsOf (sculptMesh (Vector3 0 0 0) (Some (Vector3 0 0 1)) triScene)
     = Some [Some (Vector3 (2/3) (2/3) (1/3)), Some (Vector3 (2/3) (2/3) (1/3)),
             Some (Vector3 (2/3) (2/3) (1/3))]
   \<and> positionsOf (sculptMesh (Vector3 0 0 0) (Some (Vector3 0 0 1)) triScene)
     = [Vector3 0 0 2, Vector3 1 0 0, Vector3 0 1 0]
   \<and> normalsOf triScene
     = Some [Some (Vector3 0 0 1), Some (Vector3 0 0 1), Some (Vector3 0 0 1)]"
  using normals_fresh [where s = triScene and g = "computeVertexNormals triGeometry"
      and point = "Vector3 0 0 0" and nrm = "Some (Vector3 0 0 1)", OF triScene_mesh]
  by (simp add: tri_sculpt tri_normals_after normalsOf_triScene normalCount_triGeometry
      index_triGeometry)




text \<open>
  C10 (Pinch and Smooth). With the same brush, contact point and mesh, the Pinch tool and the
  Smooth tool leave the same positions: a vertex inside the radius moves toward the local
  contact point by the fraction \<open>brushStrength * falloff * 0.01\<close> of its offset, with either
  tool.
\<close>

theorem pinch_equals_smooth:
  assumes "meshRef s = Some m" and "geometry m = Some g" and "i < length (position g)"
    and "distanceTo (position g ! i) lp < brushSize s"
    and "localPointOf m point = Some lp"
  shows "positionsOf (sculptMesh point nrm (s\<lparr>activeTool := PINCH\<rparr>))
           = positionsOf (sculptMesh point nrm (s\<lparr>activeTool := SMOOTH\<rparr>))
         \<and> positionsOf (sculptMesh point nrm (s\<lparr>activeTool := PINCH\<rparr>)) ! i
           = add (position g ! i)
               (multiplyScalar (sub lp (position g ! i))
                  (brushStrength s * (1 - distanceTo (position g ! i) lp / brushSize s) * 0.01))
         \<and> positionsOf (sculptMesh point nrm (s\<lparr>activeTool := SMOOTH\<rparr>)) ! i
           = add (position g ! i)
               (multiplyScalar (sub lp (position g ! i))
                  (brushStrength s * (1 - distanceTo (position g ! i) lp / brushSize s) * 0.01))"
proof -
  have mP: "meshRef (s\<lparr>activeTool := PINCH\<rparr>) = Some m" and mS: "meshRef (s\<lparr>activeTool := SMOOTH\<rparr>) = Some m"
    using assms(1) by simp_all
  have eq: "positionsOf (sculptMesh point nrm (s\<lparr>activeTool := PINCH\<rparr>))
           = positionsOf (sculptMesh point nrm (s\<lparr>activeTool := SMOOTH\<rparr>))"
    by (simp only: positionsOf_sculptMesh[OF mP assms(2,5)] positionsOf_sculptMesh[OF mS assms(2,5)]
        sculptVertex_PINCH_SMOOTH)
  have "positionsOf (sculptMesh point nrm (s\<lparr>activeTool := SMOOTH\<rparr>)) ! i
           = lerp (position g ! i) lp
               (brushStrength s * (1 - distanceTo (position g ! i) lp / brushSize s) * 0.01)"
    using assms(3,4) by (simp add: positionsOf_sculptMesh[OF mS assms(2,5)] sculptVertex_def applyTool_SMOOTH)
  also have "\<dots> = add (position g ! i)
               (multiplyScalar (sub lp (position g ! i))
                  (brushStrength s * (1 - distanceTo (position g ! i) lp / brushSize s) * 0.01))"
    by (simp add: lerp_def add_def multiplyScalar_def sub_def)
  finally show ?thesis using eq by simp
qed

theorem pinch_equals_smooth_witness:
  "positionsOf (sculptMesh lineContact None ((lineScene MOVE 1 5)\<lparr>activeTool := PINCH\<rparr>))
     = positionsOf (sculptMesh lineContact None ((lineScene MOVE 1 5)\<lparr>activeTool := SMOOTH\<rparr>))
   \<and> positionsOf (sculptMesh lineContact None ((lineScene MOVE 1 5)\<lparr>activeTool := PINCH\<rparr>)) ! 1
     = Vector3 (39/80) 0 0
   \<and> positionsOf (sculptMesh lineContact None ((lineScene MOVE 1 5)\<lparr>activeTool := SMOOTH\<rparr>)) ! 1
     = Vector3 (39/80) 0 0"
  using pinch_equals_smooth [where s = "lineScene MOVE 1 5"
      and g = "computeVertexNormals lineGeometry" and i = 1 and point = lineContact and lp = "Vector3 0 0 0"
      and nrm = None, OF lineScene_mesh]
  by (simp add: localPoint_line line_distances add_def multiplyScalar_def sub_def)



end
